theory Spec2Isabelle
  imports Main "HOL-Library.Word"
begin

unbundle bit_operations_syntax

section \<open>JavaScript values and strings\<close>

text \<open>
  The fields the program reads with \<^verbatim>\<open>||\<close>, \<^verbatim>\<open>&&\<close> and \<^verbatim>\<open>if (x)\<close> are dynamically
  typed at run time, so they are modelled as JavaScript values. \<open>Fun\<close> stands for a
  function object, named for reference only.
\<close>

datatype jsval =
    Undefined
  | Null
  | Bool bool
  | Num int
  | Str string
  | Arr "jsval list"
  | Obj "(string \<times> jsval) list"
  | Fun string

text \<open>ToBoolean: what \<^verbatim>\<open>if (v)\<close>, \<^verbatim>\<open>!v\<close>, \<^verbatim>\<open>a || b\<close> and \<^verbatim>\<open>a && b\<close> test.\<close>

fun truthy :: "jsval \<Rightarrow> bool" where
  "truthy Undefined = False"
| "truthy Null = False"
| "truthy (Bool b) = b"
| "truthy (Num n) = (n \<noteq> 0)"
| "truthy (Str s) = (s \<noteq> [])"
| "truthy (Arr _) = True"
| "truthy (Obj _) = True"
| "truthy (Fun _) = True"

text \<open>\<^verbatim>\<open>a || b\<close>\<close>

definition js_or :: "jsval \<Rightarrow> jsval \<Rightarrow> jsval" where
  "js_or a b = (if truthy a then a else b)"

text \<open>
  The members every plain object inherits from \<^verbatim>\<open>Object.prototype\<close>; any other name
  is \<^verbatim>\<open>undefined\<close> there.
\<close>

definition object_prototype :: "string \<Rightarrow> jsval" where
  "object_prototype k =
     (if k = ''constructor'' then Fun ''Object''
      else if k = ''__proto__'' then Obj []
      else if k \<in> set [''hasOwnProperty'', ''isPrototypeOf'', ''propertyIsEnumerable'',
                        ''toLocaleString'', ''toString'', ''valueOf'',
                        ''__defineGetter__'', ''__defineSetter__'',
                        ''__lookupGetter__'', ''__lookupSetter__'']
      then Fun k
      else Undefined)"

text \<open>
  Property read \<^verbatim>\<open>v[k]\<close> on a value that is not \<^verbatim>\<open>null\<close> or \<^verbatim>\<open>undefined\<close>: an own
  property of an object, else the inherited member. The program reads no property of a
  string, number, boolean or array other than \<^verbatim>\<open>email\<close> and \<^verbatim>\<open>password\<close>, which those
  do not have.
\<close>

fun get_prop :: "jsval \<Rightarrow> string \<Rightarrow> jsval" where
  "get_prop (Obj kvs) k = (case map_of kvs k of Some v \<Rightarrow> v | None \<Rightarrow> object_prototype k)"
| "get_prop _ k = Undefined"

text \<open>Optional chaining \<^verbatim>\<open>v?.k\<close>.\<close>

fun opt_prop :: "jsval \<Rightarrow> string \<Rightarrow> jsval" where
  "opt_prop Undefined k = Undefined"
| "opt_prop Null k = Undefined"
| "opt_prop v k = get_prop v k"

text \<open>
  A string is a list of code units. The strings considered are those whose code units are
  below 256 (Basic Latin and Latin-1 Supplement), the values of \<open>char\<close>. On these
  \<^verbatim>\<open>String.prototype.toLowerCase\<close> works one code unit at a time: it maps \<open>A\<close>..\<open>Z\<close>
  (65..90), the accented capitals 192..214 and 216..222 to the code unit 32 above, and
  leaves every other code unit (215 is the multiplication sign, 223 the sharp s).
\<close>

definition toLowerCase_char :: "char \<Rightarrow> char" where
  "toLowerCase_char c =
     (let n = of_char c :: nat
      in if (65 \<le> n \<and> n \<le> 90) \<or> (192 \<le> n \<and> n \<le> 214) \<or> (216 \<le> n \<and> n \<le> 222)
         then char_of (n + 32) else c)"

definition toLowerCase :: "string \<Rightarrow> string" where
  "toLowerCase s = map toLowerCase_char s"

text \<open>
  Equality of two strings ignoring case, stated on its own: same length, and at each
  position the same code unit or the two cases of one letter. Ignoring ASCII case only
  the letters \<open>A\<close>..\<open>Z\<close> count as having two cases.
\<close>

definition is_ascii_upper :: "char \<Rightarrow> bool" where
  "is_ascii_upper c = (65 \<le> (of_char c :: nat) \<and> (of_char c :: nat) \<le> 90)"

definition is_upper :: "char \<Rightarrow> bool" where
  "is_upper c =
     (is_ascii_upper c \<or>
      (192 \<le> (of_char c :: nat) \<and> (of_char c :: nat) \<le> 222 \<and> (of_char c :: nat) \<noteq> 215))"

definition same_letter :: "char \<Rightarrow> char \<Rightarrow> bool" where
  "same_letter c d =
     (c = d \<or> (is_upper c \<and> (of_char d :: nat) = of_char c + 32)
            \<or> (is_upper d \<and> (of_char c :: nat) = of_char d + 32))"

definition same_ascii_letter :: "char \<Rightarrow> char \<Rightarrow> bool" where
  "same_ascii_letter c d =
     (c = d \<or> (is_ascii_upper c \<and> (of_char d :: nat) = of_char c + 32)
            \<or> (is_ascii_upper d \<and> (of_char c :: nat) = of_char d + 32))"

definition equal_ignoring_case :: "string \<Rightarrow> string \<Rightarrow> bool" where
  "equal_ignoring_case a b = list_all2 same_letter a b"

definition equal_ignoring_ascii_case :: "string \<Rightarrow> string \<Rightarrow> bool" where
  "equal_ignoring_ascii_case a b = list_all2 same_ascii_letter a b"

text \<open>\<^verbatim>\<open>Array.prototype.find\<close>, returning the position of the element found.\<close>

fun find_from :: "nat \<Rightarrow> ('a \<Rightarrow> bool) \<Rightarrow> 'a list \<Rightarrow> nat option" where
  "find_from i p [] = None"
| "find_from i p (x # xs) = (if p x then Some i else find_from (Suc i) p xs)"

definition array_find :: "('a \<Rightarrow> bool) \<Rightarrow> 'a list \<Rightarrow> nat option" where
  "array_find p xs = find_from 0 p xs"

section \<open>Data model (types.ts)\<close>

record AnyListItem =
  name :: string
  quantity :: jsval
  details :: jsval
  checked :: bool
  item_identifier :: string
  categoryMatchId :: jsval

record AnyListList =
  list_name :: string
  list_identifier :: string
  items :: "AnyListItem list"

record ListInfo =
  li_name :: string
  li_identifier :: string
  itemCount :: nat
  checkedCount :: nat

record ItemInfo =
  info_name :: string
  info_quantity :: jsval
  info_details :: jsval
  info_checked :: bool
  info_identifier :: string
  info_categoryMatchId :: jsval

record item_options =
  opt_name :: string
  opt_quantity :: jsval
  opt_details :: jsval
  opt_categoryMatchId :: jsval

definition ANYLIST_CATEGORIES :: jsval where
  "ANYLIST_CATEGORIES = Obj
     [(''produce'', Str ''produce''),
      (''meat'', Str ''meat-seafood''),
      (''seafood'', Str ''meat-seafood''),
      (''dairy'', Str ''dairy''),
      (''bakery'', Str ''bakery-bread''),
      (''bread'', Str ''bakery-bread''),
      (''frozen'', Str ''frozen''),
      (''canned'', Str ''canned-goods''),
      (''condiments'', Str ''condiments''),
      (''beverages'', Str ''beverages''),
      (''snacks'', Str ''snacks''),
      (''pasta'', Str ''pasta-rice''),
      (''rice'', Str ''pasta-rice''),
      (''cereal'', Str ''breakfast''),
      (''breakfast'', Str ''breakfast''),
      (''baking'', Str ''baking''),
      (''spices'', Str ''spices-seasonings''),
      (''seasonings'', Str ''spices-seasonings''),
      (''household'', Str ''household''),
      (''personal care'', Str ''personal-care''),
      (''other'', Str ''other'')]"

text \<open>\<^verbatim>\<open>Object.keys(ANYLIST_CATEGORIES)\<close>\<close>

definition category_keys :: "string list" where
  "category_keys = (case ANYLIST_CATEGORIES of Obj kvs \<Rightarrow> map fst kvs | _ \<Rightarrow> [])"

datatype ExitCode = Success | Failure | InvalidUsage | AuthFailure

fun exit_value :: "ExitCode \<Rightarrow> nat" where
  "exit_value Success = 0"
| "exit_value Failure = 1"
| "exit_value InvalidUsage = 2"
| "exit_value AuthFailure = 3"

section \<open>The wrapped client library\<close>

text \<open>
  The \<^verbatim>\<open>anylist\<close> package is not part of the repository. Its methods are parameters of
  the model: one record holds what each call answers. A call that returns a promise may
  reject (\<open>None\<close>, or \<open>False\<close> for a call without a result). A method that returns one
  of the list's item objects answers with the position of that object in
  \<^verbatim>\<open>list.items\<close>, so that an assignment to the object is an update at that position.
  \<open>lib_addItem\<close> and \<open>lib_removeItem\<close> answer with the list's \<^verbatim>\<open>items\<close> after the call.
\<close>

record AnyList =
  lib_login :: "jsval \<Rightarrow> jsval \<Rightarrow> bool"
  lib_getLists :: "AnyListList list option"
  lib_getListByName :: "AnyListList list \<Rightarrow> string \<Rightarrow> AnyListList option"
  lib_createItem :: "item_options \<Rightarrow> AnyListItem"
  lib_getItemByName :: "AnyListItem list \<Rightarrow> string \<Rightarrow> nat option"
  lib_addItem :: "AnyListItem \<Rightarrow> AnyListItem list \<Rightarrow> (AnyListItem \<times> AnyListItem list) option"
  lib_removeItem :: "AnyListItem \<Rightarrow> AnyListItem list \<Rightarrow> AnyListItem list option"
  lib_save :: "AnyListItem \<Rightarrow> bool"

section \<open>Process state and effects\<close>

text \<open>
  A file's text is represented by the JSON document it denotes, or \<open>Unparsable\<close> when
  \<^verbatim>\<open>JSON.parse\<close> rejects it; \<^verbatim>\<open>JSON.stringify\<close> writes the document of its argument.
  A path is a regular file with its mode, a directory, or absent. The process runs as
  the owner of every file and not as the superuser, so of a file's mode the owner bits
  decide; it can search and write every directory; there are no symbolic links, and the
  disk has room. Console output is not modelled.
\<close>

datatype file_text = Json jsval | Unparsable

type_synonym file_mode = "16 word"

record file_node =
  content :: file_text
  mode :: file_mode

record filesystem =
  files :: "string \<Rightarrow> file_node option"
  dirs :: "string set"
  umask :: file_mode

datatype event =
    ExistsSync string
  | ReadFile string
  | WriteFile string
  | MkdirSync string
  | Unlink string
  | Login jsval jsval
  | ClientTeardown
  | GetLists
  | Save AnyListItem
  | CreateItem item_options
  | AddItem AnyListItem
  | RemoveItem AnyListItem

text \<open>
  \<open>clientInstance\<close> is the module variable of client.ts (\<open>True\<close>: it holds a client);
  \<open>trace\<close> lists the calls made to the file system and to the library, in order.
\<close>

record state =
  fs :: filesystem
  clientInstance :: bool
  trace :: "event list"

text \<open>
  A computation returns a value, throws (or awaits a promise that rejects), or ends the
  process with \<^verbatim>\<open>process.exit(code)\<close>.
\<close>

datatype 'a result = Return 'a | Throw | Exit nat

type_synonym 'a io = "state \<Rightarrow> 'a result \<times> state"

definition return_io :: "'a \<Rightarrow> 'a io" where
  "return_io x s = (Return x, s)"

definition throw_io :: "'a io" where
  "throw_io s = (Throw, s)"

definition process_exit :: "nat \<Rightarrow> 'a io" where
  "process_exit c s = (Exit c, s)"

definition bind_io :: "'a io \<Rightarrow> ('a \<Rightarrow> 'b io) \<Rightarrow> 'b io" where
  "bind_io m f s =
     (case m s of
        (Return a, s') \<Rightarrow> f a s'
      | (Throw, s') \<Rightarrow> (Throw, s')
      | (Exit c, s') \<Rightarrow> (Exit c, s'))"

text \<open>\<^verbatim>\<open>try { m } catch { h }\<close>: \<^verbatim>\<open>process.exit\<close> inside \<open>m\<close> is not caught.\<close>

definition try_catch :: "'a io \<Rightarrow> 'a io \<Rightarrow> 'a io" where
  "try_catch m h s =
     (case m s of
        (Throw, s') \<Rightarrow> h s'
      | r \<Rightarrow> r)"

definition emit :: "event \<Rightarrow> unit io" where
  "emit e s = (Return (), s\<lparr>trace := trace s @ [e]\<rparr>)"

section \<open>Client wrapper (client.ts)\<close>

definition getClient :: "AnyList \<Rightarrow> jsval \<Rightarrow> jsval \<Rightarrow> unit io" where
  "getClient lib email password =
     bind_io (emit (Login email password)) (\<lambda>_.
       if lib_login lib email password
       then (\<lambda>s. (Return (), s\<lparr>clientInstance := True\<rparr>))
       else throw_io)"

definition teardown :: "unit io" where
  "teardown s =
     (if clientInstance s
      then (Return (), s\<lparr>trace := trace s @ [ClientTeardown], clientInstance := False\<rparr>)
      else (Return (), s))"

text \<open>\<^verbatim>\<open>await client.getLists()\<close>\<close>

definition client_getLists :: "AnyList \<Rightarrow> AnyListList list io" where
  "client_getLists lib =
     bind_io (emit GetLists) (\<lambda>_.
       case lib_getLists lib of None \<Rightarrow> throw_io | Some all_lists \<Rightarrow> return_io all_lists)"

definition getLists :: "AnyList \<Rightarrow> ListInfo list io" where
  "getLists lib =
     bind_io (client_getLists lib) (\<lambda>all_lists.
       return_io (map (\<lambda>l. \<lparr>li_name = list_name l, li_identifier = list_identifier l,
                              itemCount = length (items l),
                              checkedCount = length (filter checked (items l))\<rparr>) all_lists))"

definition getListByName :: "AnyList \<Rightarrow> string \<Rightarrow> AnyListList option io" where
  "getListByName lib nm =
     bind_io (client_getLists lib) (\<lambda>loaded.
       case lib_getListByName lib loaded nm of
         Some exactMatch \<Rightarrow> return_io (Some exactMatch)
       | None \<Rightarrow>
           bind_io (client_getLists lib) (\<lambda>all_lists.
             let lowerName = toLowerCase nm
             in return_io (find (\<lambda>l. toLowerCase (list_name l) = lowerName) all_lists)))"

text \<open>The object literal that every function of client.ts builds from an item.\<close>

definition item_info :: "AnyListItem \<Rightarrow> ItemInfo" where
  "item_info it =
     \<lparr>info_name = name it,
      info_quantity = js_or (quantity it) (Str ''''),
      info_details = js_or (details it) (Str ''''),
      info_checked = checked it,
      info_identifier = item_identifier it,
      info_categoryMatchId = js_or (categoryMatchId it) (Str ''other'')\<rparr>"

definition getItems :: "AnyListList \<Rightarrow> bool \<Rightarrow> ItemInfo list" where
  "getItems l uncheckedOnly =
     (let its = items l;
          its = (if uncheckedOnly then filter (\<lambda>i. \<not> checked i) its else its)
      in map item_info its)"

text \<open>The result is the position in \<^verbatim>\<open>list.items\<close> of the item object returned.\<close>

definition findItemByName :: "AnyList \<Rightarrow> AnyListList \<Rightarrow> string \<Rightarrow> nat option" where
  "findItemByName lib l nm =
     (case lib_getItemByName lib (items l) nm of
        Some exactMatch \<Rightarrow> Some exactMatch
      | None \<Rightarrow>
          (let lowerName = toLowerCase nm
           in array_find (\<lambda>i. toLowerCase (name i) = lowerName) (items l)))"

text \<open>\<^verbatim>\<open>await item.save()\<close>\<close>

definition item_save :: "AnyList \<Rightarrow> AnyListItem \<Rightarrow> unit io" where
  "item_save lib it =
     bind_io (emit (Save it)) (\<lambda>_. if lib_save lib it then return_io () else throw_io)"

text \<open>\<^verbatim>\<open>await list.removeItem(item)\<close>, returning the list as the call leaves it.\<close>

definition list_removeItem :: "AnyList \<Rightarrow> AnyListList \<Rightarrow> AnyListItem \<Rightarrow> AnyListList io" where
  "list_removeItem lib l it =
     bind_io (emit (RemoveItem it)) (\<lambda>_.
       case lib_removeItem lib it (items l) of
         None \<Rightarrow> throw_io
       | Some its \<Rightarrow> return_io (l\<lparr>items := its\<rparr>))"

text \<open>
  The functions below mutate the list they are given; each returns the list as it
  leaves it beside its result.
\<close>

definition addItem ::
  "AnyList \<Rightarrow> AnyListList \<Rightarrow> string \<Rightarrow> jsval \<Rightarrow> jsval \<Rightarrow> jsval \<Rightarrow> (ItemInfo \<times> AnyListList) io" where
  "addItem lib l nm qty categoryId det =
     (case findItemByName lib l nm of
        Some i \<Rightarrow>
          (let existing = items l ! i;
               needsSave = False;
               (existing, needsSave) =
                  (if checked existing then (existing\<lparr>checked := False\<rparr>, True)
                   else (existing, needsSave));
               (existing, needsSave) =
                  (if truthy qty then (existing\<lparr>quantity := qty\<rparr>, True)
                   else (existing, needsSave));
               (existing, needsSave) =
                  (if truthy categoryId then (existing\<lparr>categoryMatchId := categoryId\<rparr>, True)
                   else (existing, needsSave));
               (existing, needsSave) =
                  (if det \<noteq> Undefined then (existing\<lparr>details := det\<rparr>, True)
                   else (existing, needsSave));
               l' = l\<lparr>items := (items l)[i := existing]\<rparr>
           in bind_io (if needsSave then item_save lib existing else return_io ()) (\<lambda>_.
                return_io (item_info existing, l')))
      | None \<Rightarrow>
          (let options = \<lparr>opt_name = nm, opt_quantity = Undefined, opt_details = Undefined,
                          opt_categoryMatchId = Undefined\<rparr>;
               options = (if truthy qty then options\<lparr>opt_quantity := qty\<rparr> else options);
               options = (if det \<noteq> Undefined then options\<lparr>opt_details := det\<rparr> else options);
               options = (if truthy categoryId then options\<lparr>opt_categoryMatchId := categoryId\<rparr>
                          else options)
           in bind_io (emit (CreateItem options)) (\<lambda>_.
                let it = lib_createItem lib options
                in bind_io (emit (AddItem it)) (\<lambda>_.
                     case lib_addItem lib it (items l) of
                       None \<Rightarrow> throw_io
                     | Some (added, its) \<Rightarrow> return_io (item_info added, l\<lparr>items := its\<rparr>)))))"

definition checkItem :: "AnyList \<Rightarrow> AnyListList \<Rightarrow> string \<Rightarrow> (ItemInfo option \<times> AnyListList) io" where
  "checkItem lib l nm =
     (case findItemByName lib l nm of
        None \<Rightarrow> return_io (None, l)
      | Some i \<Rightarrow>
          (let it = (items l ! i)\<lparr>checked := True\<rparr>;
               l' = l\<lparr>items := (items l)[i := it]\<rparr>
           in bind_io (item_save lib it) (\<lambda>_. return_io (Some (item_info it), l'))))"

definition uncheckItem :: "AnyList \<Rightarrow> AnyListList \<Rightarrow> string \<Rightarrow> (ItemInfo option \<times> AnyListList) io" where
  "uncheckItem lib l nm =
     (case findItemByName lib l nm of
        None \<Rightarrow> return_io (None, l)
      | Some i \<Rightarrow>
          (let it = (items l ! i)\<lparr>checked := False\<rparr>;
               l' = l\<lparr>items := (items l)[i := it]\<rparr>
           in bind_io (item_save lib it) (\<lambda>_. return_io (Some (item_info it), l'))))"

definition updateItemDetails ::
    "AnyList \<Rightarrow> AnyListList \<Rightarrow> string \<Rightarrow> jsval \<Rightarrow> (ItemInfo option \<times> AnyListList) io" where
  "updateItemDetails lib l nm det =
     (case findItemByName lib l nm of
        None \<Rightarrow> return_io (None, l)
      | Some i \<Rightarrow>
          (let it = (items l ! i)\<lparr>details := det\<rparr>;
               l' = l\<lparr>items := (items l)[i := it]\<rparr>
           in bind_io (item_save lib it) (\<lambda>_. return_io (Some (item_info it), l'))))"

definition removeItem :: "AnyList \<Rightarrow> AnyListList \<Rightarrow> string \<Rightarrow> (bool \<times> AnyListList) io" where
  "removeItem lib l nm =
     (case findItemByName lib l nm of
        None \<Rightarrow> return_io (False, l)
      | Some i \<Rightarrow> bind_io (list_removeItem lib l (items l ! i)) (\<lambda>l'. return_io (True, l')))"

text \<open>The \<^verbatim>\<open>for ... of\<close> loop of \<^verbatim>\<open>clearChecked\<close> over the items still to remove.\<close>

fun clearChecked_loop ::
  "AnyList \<Rightarrow> AnyListItem list \<Rightarrow> AnyListList \<Rightarrow> nat \<Rightarrow> (nat \<times> AnyListList) io" where
  "clearChecked_loop lib [] l count s = (Return (count, l), s)"
| "clearChecked_loop lib (it # rest) l count s =
     (case list_removeItem lib l it s of
        (Return l', s') \<Rightarrow> clearChecked_loop lib rest l' (count + 1) s'
      | (Throw, s') \<Rightarrow> (Throw, s')
      | (Exit c, s') \<Rightarrow> (Exit c, s'))"

definition clearChecked :: "AnyList \<Rightarrow> AnyListList \<Rightarrow> (nat \<times> AnyListList) io" where
  "clearChecked lib l =
     (let checkedItems = filter checked (items l)
      in clearChecked_loop lib checkedItems l 0)"

section \<open>File system calls (node:fs)\<close>

text \<open>
  Paths are absolute, with \<open>/\<close> between components. \<open>dirname p\<close> is \<open>p\<close> without its
  last component (the empty string stands for the root); \<open>ancestors p\<close> lists the
  directories above \<open>p\<close>, the root left out, from the top down.
\<close>

definition dirname :: "string \<Rightarrow> string" where
  "dirname p = rev (drop 1 (dropWhile (\<lambda>c. c \<noteq> CHR ''/'') (rev p)))"

definition ancestors :: "string \<Rightarrow> string list" where
  "ancestors p = map (\<lambda>i. take i p) (filter (\<lambda>i. p ! i = CHR ''/'') [1..<length p])"

text \<open>The owner's read bit (\<^verbatim>\<open>0o400\<close>) and write bit (\<^verbatim>\<open>0o200\<close>) of a mode.\<close>

definition owner_may_read :: "file_mode \<Rightarrow> bool" where
  "owner_may_read m = bit m 8"

definition owner_may_write :: "file_mode \<Rightarrow> bool" where
  "owner_may_write m = bit m 7"

definition existsSync :: "string \<Rightarrow> bool io" where
  "existsSync p s =
     (Return (files (fs s) p \<noteq> None \<or> p \<in> dirs (fs s)),
      s\<lparr>trace := trace s @ [ExistsSync p]\<rparr>)"

text \<open>
  \<^verbatim>\<open>readFileSync(p, "utf-8")\<close> throws when \<open>p\<close> is a directory (\<open>EISDIR\<close>), is absent
  (\<open>ENOENT\<close>) or may not be read by its owner (\<open>EACCES\<close>).
\<close>

definition readFileSync :: "string \<Rightarrow> file_text io" where
  "readFileSync p s =
     (let s' = s\<lparr>trace := trace s @ [ReadFile p]\<rparr>
      in if p \<in> dirs (fs s) then (Throw, s')
         else (case files (fs s) p of
                 None \<Rightarrow> (Throw, s')
               | Some f \<Rightarrow>
                   if owner_may_read (mode f) then (Return (content f), s') else (Throw, s')))"

text \<open>
  \<^verbatim>\<open>writeFileSync(p, data, {mode})\<close> opens \<open>p\<close> for writing, creating or truncating it.
  It throws when \<open>p\<close> is a directory (\<open>EISDIR\<close>), when \<open>p\<close> exists and may not be written
  by its owner (\<open>EACCES\<close>), and when \<open>p\<close> is absent and the path above it is not a
  directory (\<open>ENOENT\<close>, \<open>ENOTDIR\<close>). The mode is used only when the call creates the file,
  and is then masked by the process umask; an existing file keeps the mode it has.
\<close>

definition writeFileSync :: "string \<Rightarrow> file_text \<Rightarrow> file_mode \<Rightarrow> unit io" where
  "writeFileSync p data md s =
     (let s' = s\<lparr>trace := trace s @ [WriteFile p]\<rparr>
      in if p \<in> dirs (fs s) then (Throw, s')
         else (case files (fs s) p of
                 Some old \<Rightarrow>
                   if owner_may_write (mode old)
                   then (Return (),
                         s'\<lparr>fs := (fs s)\<lparr>files := (files (fs s))(p \<mapsto> old\<lparr>content := data\<rparr>)\<rparr>\<rparr>)
                   else (Throw, s')
               | None \<Rightarrow>
                   if dirname p = [] \<or> dirname p \<in> dirs (fs s)
                   then (Return (),
                         s'\<lparr>fs := (fs s)\<lparr>files := (files (fs s))
                                 (p \<mapsto> \<lparr>content = data, mode = md AND NOT (umask (fs s))\<rparr>)\<rparr>\<rparr>)
                   else (Throw, s')))"

text \<open>
  \<^verbatim>\<open>mkdirSync(p, {recursive: true})\<close> makes \<open>p\<close> and the directories above it that are
  missing, and accepts a directory that is already there. It throws when \<open>p\<close> or a path
  above it is a regular file (\<open>EEXIST\<close>, \<open>ENOTDIR\<close>).
\<close>

definition mkdirSync :: "string \<Rightarrow> unit io" where
  "mkdirSync p s =
     (let s' = s\<lparr>trace := trace s @ [MkdirSync p]\<rparr>
      in if files (fs s) p \<noteq> None \<or> (\<exists>d\<in>set (ancestors p). files (fs s) d \<noteq> None)
         then (Throw, s')
         else (Return (),
               s'\<lparr>fs := (fs s)\<lparr>dirs := insert p (set (ancestors p) \<union> dirs (fs s))\<rparr>\<rparr>))"

text \<open>\<^verbatim>\<open>unlinkSync(p)\<close> throws when \<open>p\<close> is a directory (\<open>EISDIR\<close>) or absent (\<open>ENOENT\<close>).\<close>

definition unlinkSync :: "string \<Rightarrow> unit io" where
  "unlinkSync p s =
     (let s' = s\<lparr>trace := trace s @ [Unlink p]\<rparr>
      in if p \<in> dirs (fs s) \<or> files (fs s) p = None then (Throw, s')
         else (Return (), s'\<lparr>fs := (fs s)\<lparr>files := (files (fs s))(p := None)\<rparr>\<rparr>))"

definition JSON_parse :: "file_text \<Rightarrow> jsval io" where
  "JSON_parse data = (case data of Json v \<Rightarrow> return_io v | Unparsable \<Rightarrow> throw_io)"

section \<open>Configuration (config.ts)\<close>

record AnyListConfig =
  email :: string
  password :: string

definition JSON_stringify :: "AnyListConfig \<Rightarrow> file_text" where
  "JSON_stringify config = Json (Obj [(''email'', Str (email config)),
                                      (''password'', Str (password config))])"

text \<open>\<open>home\<close> is \<^verbatim>\<open>homedir()\<close>; \<^verbatim>\<open>join\<close> puts a separator between its arguments.\<close>

definition CONFIG_DIR :: "string \<Rightarrow> string" where
  "CONFIG_DIR home = home @ ''/.config/anylist-cli''"

definition CONFIG_FILE :: "string \<Rightarrow> string" where
  "CONFIG_FILE home = CONFIG_DIR home @ ''/config.json''"

definition getConfigPath :: "string \<Rightarrow> string" where
  "getConfigPath home = CONFIG_FILE home"

text \<open>The result is \<^verbatim>\<open>null\<close> or whatever JSON value the file holds (the cast is unchecked).\<close>

definition loadConfig :: "string \<Rightarrow> jsval io" where
  "loadConfig home =
     bind_io (existsSync (CONFIG_FILE home)) (\<lambda>ex.
       if \<not> ex then return_io Null
       else try_catch
              (bind_io (readFileSync (CONFIG_FILE home)) (\<lambda>data. JSON_parse data))
              (return_io Null))"

text \<open>\<^verbatim>\<open>process.env[k]\<close>\<close>

definition env_get :: "(string \<Rightarrow> string option) \<Rightarrow> string \<Rightarrow> jsval" where
  "env_get env k = (case env k of None \<Rightarrow> Undefined | Some v \<Rightarrow> Str v)"

definition loadConfigFromEnv :: "(string \<Rightarrow> string option) \<Rightarrow> jsval" where
  "loadConfigFromEnv env =
     (let em = env_get env ''ANYLIST_EMAIL'';
          pw = env_get env ''ANYLIST_PASSWORD''
      in if truthy em \<and> truthy pw then Obj [(''email'', em), (''password'', pw)] else Null)"

text \<open>The mode \<^verbatim>\<open>0o600\<close> (octal) is \<open>6 * 64 = 384\<close>: read and write for the owner.\<close>

definition saveConfig :: "string \<Rightarrow> AnyListConfig \<Rightarrow> unit io" where
  "saveConfig home config =
     bind_io (existsSync (CONFIG_DIR home)) (\<lambda>ex.
     bind_io (if \<not> ex then mkdirSync (CONFIG_DIR home) else return_io ()) (\<lambda>_.
     writeFileSync (CONFIG_FILE home) (JSON_stringify config) 384))"

definition clearConfig :: "string \<Rightarrow> unit io" where
  "clearConfig home =
     bind_io (existsSync (CONFIG_FILE home)) (\<lambda>ex.
     bind_io (if ex then unlinkSync (CONFIG_FILE home) else return_io ()) (\<lambda>_.
     let anylistCreds = home @ ''/.anylist_credentials''
     in bind_io (existsSync anylistCreds) (\<lambda>ex'.
          if ex' then unlinkSync anylistCreds else return_io ())))"

definition requireConfig :: "(string \<Rightarrow> string option) \<Rightarrow> string \<Rightarrow> jsval io" where
  "requireConfig env home =
     (let envConfig = loadConfigFromEnv env
      in if truthy envConfig then return_io envConfig
         else bind_io (loadConfig home) (\<lambda>fileConfig.
                if truthy (opt_prop fileConfig ''email'') \<and> truthy (opt_prop fileConfig ''password'')
                then return_io fileConfig
                else process_exit (exit_value AuthFailure)))"

section \<open>Command line (cli.ts)\<close>

text \<open>
  What one invocation finds around it: \<^verbatim>\<open>process.env\<close>, the home directory, the
  library and the service behind it, whether standard input is a terminal, and what the
  user answers to the two prompts of \<^verbatim>\<open>auth\<close> (\<open>None\<close>: Ctrl-C at the hidden password
  prompt).
\<close>

record world =
  w_env :: "string \<Rightarrow> string option"
  w_home :: string
  w_lib :: AnyList
  stdin_isTTY :: bool
  typed_email :: string
  typed_password :: "string option"

text \<open>The error Commander hands to the \<^verbatim>\<open>exitOverride\<close> callback.\<close>

record CommanderError =
  err_code :: string
  err_exitCode :: nat

definition exitOverride :: "CommanderError \<Rightarrow> unit io" where
  "exitOverride err =
     (if err_code err = ''commander.missingArgument'' \<or>
         err_code err = ''commander.unknownOption'' \<or>
         err_code err = ''commander.invalidArgument'' \<or>
         err_code err = ''commander.missingMandatoryOptionValue''
      then process_exit (exit_value InvalidUsage)
      else process_exit (err_exitCode err))"

definition prompt :: "world \<Rightarrow> bool \<Rightarrow> string io" where
  "prompt w hidden =
     (if hidden \<and> stdin_isTTY w
      then (case typed_password w of
              None \<Rightarrow> process_exit (exit_value Failure)
            | Some pw \<Rightarrow> return_io pw)
      else return_io (if hidden then (case typed_password w of None \<Rightarrow> [] | Some pw \<Rightarrow> pw)
                      else typed_email w))"

definition getAuthenticatedClient :: "world \<Rightarrow> unit io" where
  "getAuthenticatedClient w =
     bind_io (requireConfig (w_env w) (w_home w)) (\<lambda>config.
       try_catch
         (getClient (w_lib w) (get_prop config ''email'') (get_prop config ''password''))
         (process_exit (exit_value AuthFailure)))"

definition auth_action :: "world \<Rightarrow> unit io" where
  "auth_action w =
     bind_io (if \<not> stdin_isTTY w then process_exit (exit_value InvalidUsage) else return_io ())
       (\<lambda>_.
     try_catch
       (bind_io (prompt w False) (\<lambda>em.
        bind_io (prompt w True) (\<lambda>pw.
        bind_io (if em = [] \<or> pw = [] then process_exit (exit_value InvalidUsage)
                 else return_io ()) (\<lambda>_.
        bind_io (getClient (w_lib w) (Str em) (Str pw)) (\<lambda>_.
        bind_io (getLists (w_lib w)) (\<lambda>all_lists.
        bind_io teardown (\<lambda>_.
        saveConfig (w_home w) \<lparr>email = em, password = pw\<rparr>)))))))
       (process_exit (exit_value AuthFailure)))"

definition logout_action :: "world \<Rightarrow> unit io" where
  "logout_action w = clearConfig (w_home w)"

definition whoami_action :: "world \<Rightarrow> unit io" where
  "whoami_action w = bind_io (loadConfig (w_home w)) (\<lambda>config. return_io ())"

definition lists_action :: "world \<Rightarrow> unit io" where
  "lists_action w =
     try_catch
       (bind_io (getAuthenticatedClient w) (\<lambda>_.
        bind_io (getLists (w_lib w)) (\<lambda>all_lists.
        teardown)))
       (process_exit (exit_value Failure))"

definition items_action :: "world \<Rightarrow> string \<Rightarrow> bool \<Rightarrow> unit io" where
  "items_action w listName unchecked =
     try_catch
       (bind_io (getAuthenticatedClient w) (\<lambda>_.
        bind_io (getListByName (w_lib w) listName) (\<lambda>found.
        case found of
          None \<Rightarrow> bind_io teardown (\<lambda>_. process_exit (exit_value Failure))
        | Some l \<Rightarrow> (let its = getItems l unchecked in teardown))))
       (process_exit (exit_value Failure))"

text \<open>\<open>quantity_opt\<close> and \<open>category_opt\<close> are the values of \<^verbatim>\<open>--quantity\<close> and \<^verbatim>\<open>--category\<close>.\<close>

definition option_value :: "string option \<Rightarrow> jsval" where
  "option_value v = (case v of None \<Rightarrow> Undefined | Some x \<Rightarrow> Str x)"

definition map_category :: "string option \<Rightarrow> jsval io" where
  "map_category category_opt =
     (case category_opt of
        None \<Rightarrow> return_io Undefined
      | Some category \<Rightarrow>
          if category \<noteq> []
          then (let lowerCategory = toLowerCase category;
                    categoryId = get_prop ANYLIST_CATEGORIES lowerCategory
                in if \<not> truthy categoryId
                   then bind_io teardown (\<lambda>_. process_exit (exit_value InvalidUsage))
                   else return_io categoryId)
          else return_io Undefined)"

definition add_action ::
    "world \<Rightarrow> string \<Rightarrow> string \<Rightarrow> string option \<Rightarrow> string option \<Rightarrow> unit io" where
  "add_action w listName itemName quantity_opt category_opt =
     try_catch
       (bind_io (getAuthenticatedClient w) (\<lambda>_.
        bind_io (getListByName (w_lib w) listName) (\<lambda>found.
        case found of
          None \<Rightarrow> bind_io teardown (\<lambda>_. process_exit (exit_value Failure))
        | Some l \<Rightarrow>
            bind_io (map_category category_opt) (\<lambda>categoryId.
            bind_io (addItem (w_lib w) l itemName (option_value quantity_opt) categoryId
                       Undefined) (\<lambda>added.
            teardown)))))
       (process_exit (exit_value Failure))"

definition check_action :: "world \<Rightarrow> string \<Rightarrow> string \<Rightarrow> unit io" where
  "check_action w listName itemName =
     try_catch
       (bind_io (getAuthenticatedClient w) (\<lambda>_.
        bind_io (getListByName (w_lib w) listName) (\<lambda>found.
        case found of
          None \<Rightarrow> bind_io teardown (\<lambda>_. process_exit (exit_value Failure))
        | Some l \<Rightarrow>
            bind_io (checkItem (w_lib w) l itemName) (\<lambda>(it, l').
            bind_io teardown (\<lambda>_.
            if it = None then process_exit (exit_value Failure) else return_io ())))))
       (process_exit (exit_value Failure))"

definition uncheck_action :: "world \<Rightarrow> string \<Rightarrow> string \<Rightarrow> unit io" where
  "uncheck_action w listName itemName =
     try_catch
       (bind_io (getAuthenticatedClient w) (\<lambda>_.
        bind_io (getListByName (w_lib w) listName) (\<lambda>found.
        case found of
          None \<Rightarrow> bind_io teardown (\<lambda>_. process_exit (exit_value Failure))
        | Some l \<Rightarrow>
            bind_io (uncheckItem (w_lib w) l itemName) (\<lambda>(it, l').
            bind_io teardown (\<lambda>_.
            if it = None then process_exit (exit_value Failure) else return_io ())))))
       (process_exit (exit_value Failure))"

definition remove_action :: "world \<Rightarrow> string \<Rightarrow> string \<Rightarrow> unit io" where
  "remove_action w listName itemName =
     try_catch
       (bind_io (getAuthenticatedClient w) (\<lambda>_.
        bind_io (getListByName (w_lib w) listName) (\<lambda>found.
        case found of
          None \<Rightarrow> bind_io teardown (\<lambda>_. process_exit (exit_value Failure))
        | Some l \<Rightarrow>
            bind_io (removeItem (w_lib w) l itemName) (\<lambda>(removed, l').
            bind_io teardown (\<lambda>_.
            if \<not> removed then process_exit (exit_value Failure) else return_io ())))))
       (process_exit (exit_value Failure))"

definition clear_action :: "world \<Rightarrow> string \<Rightarrow> unit io" where
  "clear_action w listName =
     try_catch
       (bind_io (getAuthenticatedClient w) (\<lambda>_.
        bind_io (getListByName (w_lib w) listName) (\<lambda>found.
        case found of
          None \<Rightarrow> bind_io teardown (\<lambda>_. process_exit (exit_value Failure))
        | Some l \<Rightarrow>
            bind_io (clearChecked (w_lib w) l) (\<lambda>(count, l').
            teardown))))
       (process_exit (exit_value Failure))"

definition categories_action :: "unit io" where
  "categories_action = return_io ()"

text \<open>
  What \<^verbatim>\<open>program.parse()\<close> makes of the command line: an error passed to
  \<^verbatim>\<open>exitOverride\<close>, or a command with its arguments and the options that reach the
  library (\<^verbatim>\<open>--json\<close> and \<^verbatim>\<open>--no-color\<close> only change what is printed).
\<close>

datatype invocation =
    ParseError CommanderError
  | Auth
  | Logout
  | Whoami
  | Lists
  | Items string bool
  | Add string string "string option" "string option"
  | Check string string
  | Uncheck string string
  | Remove string string
  | Clear string
  | Categories

fun dispatch :: "world \<Rightarrow> invocation \<Rightarrow> unit io" where
  "dispatch w (ParseError err) = exitOverride err"
| "dispatch w Auth = auth_action w"
| "dispatch w Logout = logout_action w"
| "dispatch w Whoami = whoami_action w"
| "dispatch w Lists = lists_action w"
| "dispatch w (Items listName unchecked) = items_action w listName unchecked"
| "dispatch w (Add listName itemName q c) = add_action w listName itemName q c"
| "dispatch w (Check listName itemName) = check_action w listName itemName"
| "dispatch w (Uncheck listName itemName) = uncheck_action w listName itemName"
| "dispatch w (Remove listName itemName) = remove_action w listName itemName"
| "dispatch w (Clear listName) = clear_action w listName"
| "dispatch w Categories = categories_action"

definition initial_state :: "filesystem \<Rightarrow> state" where
  "initial_state disk = \<lparr>fs = disk, clientInstance = False, trace = []\<rparr>"

text \<open>
  The exit code of the process: the argument of \<^verbatim>\<open>process.exit\<close>, 0 when the action
  returns and nothing is left to run, 1 when an exception escapes.
\<close>

definition exit_status :: "'a result \<Rightarrow> nat" where
  "exit_status r = (case r of Return _ \<Rightarrow> 0 | Throw \<Rightarrow> 1 | Exit c \<Rightarrow> c)"

definition run :: "world \<Rightarrow> filesystem \<Rightarrow> invocation \<Rightarrow> unit result \<times> state" where
  "run w disk cmd = dispatch w cmd (initial_state disk)"

definition exit_code :: "world \<Rightarrow> filesystem \<Rightarrow> invocation \<Rightarrow> nat" where
  "exit_code w disk cmd = exit_status (fst (run w disk cmd))"

section \<open>What the theorems ask of the library\<close>

text \<open>
  \<^verbatim>\<open>list.getItemByName(n)\<close> and \<^verbatim>\<open>client.getListByName(n)\<close> look a name up as it is
  written: the answer is an entry with exactly that name, and there is an answer when
  such an entry exists.
\<close>

definition exact_item_lookup :: "AnyList \<Rightarrow> bool" where
  "exact_item_lookup lib \<longleftrightarrow>
     (\<forall>its n. case lib_getItemByName lib its n of
                 Some i \<Rightarrow> i < length its \<and> name (its ! i) = n
               | None \<Rightarrow> n \<notin> name ` set its)"

definition exact_list_lookup :: "AnyList \<Rightarrow> bool" where
  "exact_list_lookup lib \<longleftrightarrow>
     (\<forall>ls n. case lib_getListByName lib ls n of
                Some l \<Rightarrow> l \<in> set ls \<and> list_name l = n
              | None \<Rightarrow> n \<notin> list_name ` set ls)"

text \<open>
  \<^verbatim>\<open>list.removeItem(item)\<close> resolves and leaves in \<^verbatim>\<open>list.items\<close> the items whose
  identifier differs from the one of \<open>item\<close>.
\<close>

definition removes_by_identifier :: "AnyList \<Rightarrow> bool" where
  "removes_by_identifier lib \<longleftrightarrow>
     (\<forall>it its. lib_removeItem lib it its =
                 Some (filter (\<lambda>j. item_identifier j \<noteq> item_identifier it) its))"

text \<open>
  One library that meets these, over a service holding the lists \<open>ls\<close>: every call
  resolves, lookups are by exact name, a new item is appended.
\<close>

definition reference_library :: "AnyListList list \<Rightarrow> AnyList" where
  "reference_library ls =
     \<lparr>lib_login = (\<lambda>em pw. True),
      lib_getLists = Some ls,
      lib_getListByName = (\<lambda>xs n. find (\<lambda>l. list_name l = n) xs),
      lib_createItem = (\<lambda>options.
         \<lparr>name = opt_name options, quantity = opt_quantity options,
          details = opt_details options, checked = False, item_identifier = ''new'',
          categoryMatchId = opt_categoryMatchId options\<rparr>),
      lib_getItemByName = (\<lambda>its n. array_find (\<lambda>i. name i = n) its),
      lib_addItem = (\<lambda>it its. Some (it, its @ [it])),
      lib_removeItem = (\<lambda>it its.
         Some (filter (\<lambda>j. item_identifier j \<noteq> item_identifier it) its)),
      lib_save = (\<lambda>it. True)\<rparr>"

text \<open>Sample data for the concrete instances below.\<close>

definition milk :: AnyListItem where
  "milk = \<lparr>name = ''Milk'', quantity = Str ''2'', details = Undefined, checked = False,
           item_identifier = ''id-1'', categoryMatchId = Str ''dairy''\<rparr>"

definition eggs :: AnyListItem where
  "eggs = \<lparr>name = ''EGGS'', quantity = Undefined, details = Undefined, checked = True,
           item_identifier = ''id-2'', categoryMatchId = Undefined\<rparr>"

definition grocery :: AnyListList where
  "grocery = \<lparr>list_name = ''Grocery'', list_identifier = ''list-1'', items = [milk, eggs]\<rparr>"

definition empty_disk :: filesystem where
  "empty_disk = \<lparr>files = (\<lambda>p. None), dirs = {}, umask = 18\<rparr>"

definition env_credentials :: "string \<Rightarrow> string option" where
  "env_credentials = (\<lambda>k. None)(''ANYLIST_EMAIL'' \<mapsto> ''a@b.c'', ''ANYLIST_PASSWORD'' \<mapsto> ''secret'')"

definition sample_world :: "AnyList \<Rightarrow> world" where
  "sample_world lib =
     \<lparr>w_env = env_credentials, w_home = ''/home/u'', w_lib = lib, stdin_isTTY = True,
      typed_email = ''a@b.c'', typed_password = Some ''secret''\<rparr>"

text \<open>
  A disk on which the configuration file already exists, readable by group and others
  (mode \<^verbatim>\<open>0o644\<close>, that is 420), with a usual umask (\<^verbatim>\<open>0o022\<close>, that is 18).
\<close>

definition loose_disk :: filesystem where
  "loose_disk =
     \<lparr>files = (\<lambda>p. None)(''/home/u/.config/anylist-cli/config.json'' \<mapsto>
                 \<lparr>content = Unparsable, mode = 420\<rparr>),
      dirs = {''/home'', ''/home/u'', ''/home/u/.config'', ''/home/u/.config/anylist-cli''},
      umask = 18\<rparr>"

text \<open>The same disk with the configuration file write-only (mode \<^verbatim>\<open>0o200\<close>, that is 128).\<close>

definition write_only_disk :: filesystem where
  "write_only_disk =
     loose_disk\<lparr>files := (\<lambda>p. None)(''/home/u/.config/anylist-cli/config.json'' \<mapsto>
                 \<lparr>content = Unparsable, mode = 128\<rparr>)\<rparr>"

text \<open>
  A disk on which \<open>saveConfig\<close> and a later \<open>loadConfig\<close> meet no error: the path of the
  configuration file is not a directory; no regular file stands where its directory or a
  directory above is needed; and the file, if it exists, may be read and written by its
  owner, while otherwise the umask leaves the owner's read bit to a new file.
\<close>

definition config_location_usable :: "string \<Rightarrow> filesystem \<Rightarrow> bool" where
  "config_location_usable home disk \<longleftrightarrow>
     CONFIG_FILE home \<notin> dirs disk \<and>
     files disk (CONFIG_DIR home) = None \<and>
     (\<forall>d\<in>set (ancestors (CONFIG_DIR home)). files disk d = None) \<and>
     (case files disk (CONFIG_FILE home) of
        None \<Rightarrow> \<not> bit (umask disk) 8
      | Some f \<Rightarrow> owner_may_read (mode f) \<and> owner_may_write (mode f))"

definition sample_config :: AnyListConfig where
  "sample_config = \<lparr>email = ''a@b.c'', password = ''secret''\<rparr>"

text \<open>The calls that create, change or remove an item on the service.\<close>

fun changes_items :: "event \<Rightarrow> bool" where
  "changes_items (Save _) = True"
| "changes_items (CreateItem _) = True"
| "changes_items (AddItem _) = True"
| "changes_items (RemoveItem _) = True"
| "changes_items _ = False"

text \<open>The entries of \<open>ANYLIST_CATEGORIES\<close>, as \<^verbatim>\<open>Object.entries\<close> lists them.\<close>

definition category_entries :: "(string \<times> jsval) list" where
  "category_entries = (case ANYLIST_CATEGORIES of Obj kvs \<Rightarrow> kvs | _ \<Rightarrow> [])"

text \<open>A computation that ends the process, if it does, with one of the codes 1 to 3.\<close>

definition exits_within_codes :: "'a io \<Rightarrow> bool" where
  "exits_within_codes m \<longleftrightarrow> (\<forall>s c s'. m s = (Exit c, s') \<longrightarrow> 1 \<le> c \<and> c \<le> 3)"

text \<open>The error codes that \<open>exitOverride\<close> turns into \<open>InvalidUsage\<close>.\<close>

definition usage_error_codes :: "string set" where
  "usage_error_codes =
     {''commander.missingArgument'', ''commander.unknownOption'',
      ''commander.invalidArgument'', ''commander.missingMandatoryOptionValue''}"

text \<open>The commands that log in to the service.\<close>

fun needs_client :: "invocation \<Rightarrow> bool" where
  "needs_client Lists = True"
| "needs_client (Items _ _) = True"
| "needs_client (Add _ _ _ _) = True"
| "needs_client (Check _ _) = True"
| "needs_client (Uncheck _ _) = True"
| "needs_client (Remove _ _) = True"
| "needs_client (Clear _) = True"
| "needs_client _ = False"

section \<open>Auxiliary facts\<close>

lemma of_char_lt_256: "(of_char c :: nat) < 256"
  by (cases c) (simp add: of_char_def)

lemma of_char_toLowerCase_char:
  "(of_char (toLowerCase_char c) :: nat) =
     (if (65 \<le> (of_char c :: nat) \<and> (of_char c :: nat) \<le> 90) \<or>
         (192 \<le> (of_char c :: nat) \<and> (of_char c :: nat) \<le> 214) \<or>
         (216 \<le> (of_char c :: nat) \<and> (of_char c :: nat) \<le> 222)
      then of_char c + 32 else of_char c)"
  by (simp add: toLowerCase_char_def Let_def)

lemma char_eq_iff_of_char: "c = d \<longleftrightarrow> (of_char c :: nat) = of_char d"
  by (metis char_of_char)

lemma lower_arith:
  fixes n m :: nat
  shows "((if (65 \<le> n \<and> n \<le> 90) \<or> (192 \<le> n \<and> n \<le> 214) \<or> (216 \<le> n \<and> n \<le> 222)
           then n + 32 else n) =
          (if (65 \<le> m \<and> m \<le> 90) \<or> (192 \<le> m \<and> m \<le> 214) \<or> (216 \<le> m \<and> m \<le> 222)
           then m + 32 else m))
     \<longleftrightarrow> (n = m \<or>
          (((65 \<le> n \<and> n \<le> 90) \<or> (192 \<le> n \<and> n \<le> 222 \<and> n \<noteq> 215)) \<and> m = n + 32) \<or>
          (((65 \<le> m \<and> m \<le> 90) \<or> (192 \<le> m \<and> m \<le> 222 \<and> m \<noteq> 215)) \<and> n = m + 32))"
  by (simp split: if_splits) arith

lemma same_letter_iff: "same_letter c d \<longleftrightarrow> toLowerCase_char c = toLowerCase_char d"
proof -
  have "toLowerCase_char c = toLowerCase_char d \<longleftrightarrow>
        (of_char (toLowerCase_char c) :: nat) = of_char (toLowerCase_char d)"
    by (rule char_eq_iff_of_char)
  also have "\<dots> \<longleftrightarrow> same_letter c d"
    unfolding of_char_toLowerCase_char same_letter_def is_upper_def is_ascii_upper_def
      char_eq_iff_of_char [of c d]
    using lower_arith [of "of_char c" "of_char d"] by blast
  finally show ?thesis by simp
qed

lemma same_ascii_letter_imp: "same_ascii_letter c d \<Longrightarrow> same_letter c d"
  by (auto simp: same_ascii_letter_def same_letter_def is_upper_def)

lemma equal_ignoring_ascii_case_imp:
  "equal_ignoring_ascii_case a b \<Longrightarrow> equal_ignoring_case a b"
  unfolding equal_ignoring_ascii_case_def equal_ignoring_case_def
  by (erule list_all2_mono) (rule same_ascii_letter_imp)

lemma equal_ignoring_case_iff:
  "equal_ignoring_case a b \<longleftrightarrow> toLowerCase a = toLowerCase b"
  unfolding equal_ignoring_case_def toLowerCase_def
proof (induction a arbitrary: b)
  case Nil
  then show ?case by auto
next
  case (Cons x xs)
  then show ?case by (cases b) (auto simp: same_letter_iff)
qed

lemma find_from_Some:
  "find_from k p xs = Some i \<Longrightarrow> k \<le> i \<and> i - k < length xs \<and> p (xs ! (i - k))"
proof (induction xs arbitrary: k)
  case Nil
  then show ?case by simp
next
  case (Cons x xs)
  show ?case
  proof (cases "p x")
    case True
    with Cons.prems show ?thesis by simp
  next
    case False
    with Cons.prems have "find_from (Suc k) p xs = Some i" by simp
    from Cons.IH [OF this] have "Suc k \<le> i" "i - Suc k < length xs" "p (xs ! (i - Suc k))"
      by auto
    then show ?thesis by (auto simp: Suc_diff_le nth_Cons')
  qed
qed

lemma find_from_None: "find_from k p xs = None \<longleftrightarrow> (\<forall>x\<in>set xs. \<not> p x)"
  by (induction xs arbitrary: k) auto

lemma array_find_Some:
  "array_find p xs = Some i \<Longrightarrow> i < length xs \<and> p (xs ! i)"
  using find_from_Some [of 0 p xs i] by (simp add: array_find_def)

lemma array_find_None: "array_find p xs = None \<longleftrightarrow> (\<forall>x\<in>set xs. \<not> p x)"
  by (simp add: array_find_def find_from_None)


lemma io_simps:
  "return_io x s = (Return x, s)"
  "throw_io s = (Throw, s)"
  "process_exit c s = (Exit c, s)"
  "emit e s = (Return (), s\<lparr>trace := trace s @ [e]\<rparr>)"
  by (simp_all add: return_io_def throw_io_def process_exit_def emit_def)

lemma bind_io_Return: "m s = (Return a, s') \<Longrightarrow> bind_io m f s = f a s'"
  by (simp add: bind_io_def)

lemma bind_io_Throw: "m s = (Throw, s') \<Longrightarrow> bind_io m f s = (Throw, s')"
  by (simp add: bind_io_def)

lemma bind_io_Exit: "m s = (Exit c, s') \<Longrightarrow> bind_io m f s = (Exit c, s')"
  by (simp add: bind_io_def)

lemma client_getLists_Some:
  "lib_getLists lib = Some ls \<Longrightarrow>
   client_getLists lib s = (Return ls, s\<lparr>trace := trace s @ [GetLists]\<rparr>)"
  by (simp add: client_getLists_def bind_io_def io_simps)

lemma exact_item_lookup_Some:
  assumes "exact_item_lookup lib" and "lib_getItemByName lib its n = Some i"
  shows "i < length its \<and> name (its ! i) = n"
proof -
  from assms(1) have "case lib_getItemByName lib its n of
                        Some i \<Rightarrow> i < length its \<and> name (its ! i) = n
                      | None \<Rightarrow> n \<notin> name ` set its"
    unfolding exact_item_lookup_def by blast
  with assms(2) show ?thesis by simp
qed

lemma exact_item_lookup_None:
  assumes "exact_item_lookup lib" and "lib_getItemByName lib its n = None"
  shows "n \<notin> name ` set its"
proof -
  from assms(1) have "case lib_getItemByName lib its n of
                        Some i \<Rightarrow> i < length its \<and> name (its ! i) = n
                      | None \<Rightarrow> n \<notin> name ` set its"
    unfolding exact_item_lookup_def by blast
  with assms(2) show ?thesis by simp
qed

lemma exact_list_lookup_Some:
  assumes "exact_list_lookup lib" and "lib_getListByName lib ls n = Some l"
  shows "l \<in> set ls \<and> list_name l = n"
proof -
  from assms(1) have "case lib_getListByName lib ls n of
                        Some l \<Rightarrow> l \<in> set ls \<and> list_name l = n
                      | None \<Rightarrow> n \<notin> list_name ` set ls"
    unfolding exact_list_lookup_def by blast
  with assms(2) show ?thesis by simp
qed

lemma exact_list_lookup_None:
  assumes "exact_list_lookup lib" and "lib_getListByName lib ls n = None"
  shows "n \<notin> list_name ` set ls"
proof -
  from assms(1) have "case lib_getListByName lib ls n of
                        Some l \<Rightarrow> l \<in> set ls \<and> list_name l = n
                      | None \<Rightarrow> n \<notin> list_name ` set ls"
    unfolding exact_list_lookup_def by blast
  with assms(2) show ?thesis by simp
qed

lemma findItemByName_finds:
  assumes c: "exact_item_lookup lib"
    and ex: "\<exists>it\<in>set (items l). equal_ignoring_case (name it) q"
  shows "\<exists>i. findItemByName lib l q = Some i \<and> i < length (items l) \<and>
             equal_ignoring_case (name (items l ! i)) q"
proof (cases "lib_getItemByName lib (items l) q")
  case None
  from ex have "\<not> (\<forall>x\<in>set (items l). \<not> toLowerCase (name x) = toLowerCase q)"
    by (auto simp: equal_ignoring_case_iff)
  then obtain i where i: "array_find (\<lambda>x. toLowerCase (name x) = toLowerCase q) (items l) = Some i"
    using array_find_None [of "\<lambda>x. toLowerCase (name x) = toLowerCase q" "items l"] by auto
  from array_find_Some [OF i] None i show ?thesis
    by (simp add: findItemByName_def equal_ignoring_case_iff)
next
  case (Some i)
  with c have "i < length (items l) \<and> name (items l ! i) = q"
    by (rule exact_item_lookup_Some)
  with Some show ?thesis
    by (auto simp: findItemByName_def equal_ignoring_case_iff)
qed

lemma findItemByName_prefers_exact:
  assumes c: "exact_item_lookup lib"
    and ex: "\<exists>it\<in>set (items l). name it = q"
  shows "\<exists>i. findItemByName lib l q = Some i \<and> i < length (items l) \<and> name (items l ! i) = q"
proof (cases "lib_getItemByName lib (items l) q")
  case None
  with c have "q \<notin> name ` set (items l)"
    by (rule exact_item_lookup_None)
  with ex show ?thesis by auto
next
  case (Some i)
  with c have "i < length (items l) \<and> name (items l ! i) = q"
    by (rule exact_item_lookup_Some)
  with Some show ?thesis by (simp add: findItemByName_def)
qed

lemma getListByName_finds:
  assumes c: "exact_list_lookup lib"
    and ls: "lib_getLists lib = Some ls"
    and ex: "\<exists>x\<in>set ls. equal_ignoring_case (list_name x) q"
  shows "\<exists>x s'. getListByName lib q s = (Return (Some x), s') \<and> x \<in> set ls \<and>
                equal_ignoring_case (list_name x) q"
proof (cases "lib_getListByName lib ls q")
  case None
  from ex have "find (\<lambda>x. toLowerCase (list_name x) = toLowerCase q) ls \<noteq> None"
    by (auto simp: equal_ignoring_case_iff find_None_iff)
  then obtain x where x: "find (\<lambda>x. toLowerCase (list_name x) = toLowerCase q) ls = Some x"
    by auto
  then have "x \<in> set ls" "toLowerCase (list_name x) = toLowerCase q"
    by (auto simp: find_Some_iff)
  with None x ls show ?thesis
    by (simp add: getListByName_def bind_io_def client_getLists_Some io_simps
        equal_ignoring_case_iff)
next
  case (Some x)
  with c have "x \<in> set ls \<and> list_name x = q"
    by (rule exact_list_lookup_Some)
  with Some ls show ?thesis
    by (simp add: getListByName_def bind_io_def client_getLists_Some io_simps
        equal_ignoring_case_iff)
qed

lemma getListByName_prefers_exact:
  assumes c: "exact_list_lookup lib"
    and ls: "lib_getLists lib = Some ls"
    and ex: "\<exists>x\<in>set ls. list_name x = q"
  shows "\<exists>x s'. getListByName lib q s = (Return (Some x), s') \<and> x \<in> set ls \<and> list_name x = q"
proof (cases "lib_getListByName lib ls q")
  case None
  with c have "q \<notin> list_name ` set ls"
    by (rule exact_list_lookup_None)
  with ex show ?thesis by auto
next
  case (Some x)
  with c have "x \<in> set ls \<and> list_name x = q"
    by (rule exact_list_lookup_Some)
  with Some ls show ?thesis
    by (simp add: getListByName_def bind_io_def client_getLists_Some io_simps)
qed


lemma reference_library_exact_item_lookup: "exact_item_lookup (reference_library ls)"
  unfolding exact_item_lookup_def
proof (intro allI)
  fix its n
  show "case lib_getItemByName (reference_library ls) its n of
          Some i \<Rightarrow> i < length its \<and> name (its ! i) = n
        | None \<Rightarrow> n \<notin> name ` set its"
  proof (cases "array_find (\<lambda>i. name i = n) its")
    case None
    then have "\<forall>x\<in>set its. name x \<noteq> n" by (simp add: array_find_None)
    with None show ?thesis by (auto simp: reference_library_def)
  next
    case (Some i)
    from array_find_Some [OF this] Some show ?thesis by (simp add: reference_library_def)
  qed
qed

lemma reference_library_exact_list_lookup: "exact_list_lookup (reference_library ls)"
  unfolding exact_list_lookup_def
proof (intro allI)
  fix xs n
  show "case lib_getListByName (reference_library ls) xs n of
          Some l \<Rightarrow> l \<in> set xs \<and> list_name l = n
        | None \<Rightarrow> n \<notin> list_name ` set xs"
  proof (cases "find (\<lambda>l. list_name l = n) xs")
    case None
    then have "\<forall>x\<in>set xs. list_name x \<noteq> n" by (simp add: find_None_iff)
    with None show ?thesis by (auto simp: reference_library_def)
  next
    case (Some l)
    then have "l \<in> set xs \<and> list_name l = n" by (auto simp: find_Some_iff)
    with Some show ?thesis by (simp add: reference_library_def)
  qed
qed

lemma reference_library_removes_by_identifier: "removes_by_identifier (reference_library ls)"
  by (simp add: removes_by_identifier_def reference_library_def)

lemma toLowerCase_samples:
  "toLowerCase ''milk'' = ''milk''" "toLowerCase ''MILK'' = ''milk''"
  "toLowerCase ''Milk'' = ''milk''"
  "toLowerCase ''eggs'' = ''eggs''" "toLowerCase ''EGGS'' = ''eggs''"
  "toLowerCase ''grocery'' = ''grocery''" "toLowerCase ''Grocery'' = ''grocery''"
  "toLowerCase ''GROCERY'' = ''grocery''"
  by code_simp+

section \<open>Name lookup\<close>

text \<open>
  C1, as the code has it. Given a library whose own lookups are by exact name,
  \<open>findItemByName\<close> returns an item of the list whose name equals the query ignoring
  case, for every letter that \<open>toLowerCase\<close> folds, whenever the list has such an item. In
  particular it finds an item whenever one equals the query ignoring ASCII case, so the
  casing of the input does not matter; the item returned is then equal to the query
  ignoring case, not always ignoring ASCII case only. It returns an item whose name is
  exactly the query whenever the list has one. \<open>getListByName\<close> does the same among the
  lists the service returns.
\<close>

theorem name_lookup_ignores_case:
  assumes "exact_item_lookup lib" and "exact_list_lookup lib"
  shows "((\<exists>it\<in>set (items l). equal_ignoring_case (name it) q) \<longrightarrow>
            (\<exists>i. findItemByName lib l q = Some i \<and> i < length (items l) \<and>
                 equal_ignoring_case (name (items l ! i)) q))
       \<and> ((\<exists>it\<in>set (items l). equal_ignoring_ascii_case (name it) q) \<longrightarrow>
            (\<exists>i. findItemByName lib l q = Some i \<and> i < length (items l) \<and>
                 equal_ignoring_case (name (items l ! i)) q))
       \<and> ((\<exists>it\<in>set (items l). name it = q) \<longrightarrow>
            (\<exists>i. findItemByName lib l q = Some i \<and> i < length (items l) \<and>
                 name (items l ! i) = q))
       \<and> (lib_getLists lib = Some ls \<and> (\<exists>x\<in>set ls. equal_ignoring_case (list_name x) r) \<longrightarrow>
            (\<exists>x s'. getListByName lib r s = (Return (Some x), s') \<and> x \<in> set ls \<and>
                    equal_ignoring_case (list_name x) r))
       \<and> (lib_getLists lib = Some ls \<and>
            (\<exists>x\<in>set ls. equal_ignoring_ascii_case (list_name x) r) \<longrightarrow>
            (\<exists>x s'. getListByName lib r s = (Return (Some x), s') \<and> x \<in> set ls \<and>
                    equal_ignoring_case (list_name x) r))
       \<and> (lib_getLists lib = Some ls \<and> (\<exists>x\<in>set ls. list_name x = r) \<longrightarrow>
            (\<exists>x s'. getListByName lib r s = (Return (Some x), s') \<and> x \<in> set ls \<and>
                    list_name x = r))"
proof (intro conjI impI)
  assume "\<exists>it\<in>set (items l). equal_ignoring_case (name it) q"
  with assms(1) show "\<exists>i. findItemByName lib l q = Some i \<and> i < length (items l) \<and>
      equal_ignoring_case (name (items l ! i)) q"
    by (rule findItemByName_finds)
next
  assume "\<exists>it\<in>set (items l). equal_ignoring_ascii_case (name it) q"
  then have "\<exists>it\<in>set (items l). equal_ignoring_case (name it) q"
    by (blast intro: equal_ignoring_ascii_case_imp)
  with assms(1) show "\<exists>i. findItemByName lib l q = Some i \<and> i < length (items l) \<and>
      equal_ignoring_case (name (items l ! i)) q"
    by (rule findItemByName_finds)
next
  assume "\<exists>it\<in>set (items l). name it = q"
  with assms(1) show "\<exists>i. findItemByName lib l q = Some i \<and> i < length (items l) \<and>
      name (items l ! i) = q"
    by (rule findItemByName_prefers_exact)
next
  assume a: "lib_getLists lib = Some ls \<and> (\<exists>x\<in>set ls. equal_ignoring_case (list_name x) r)"
  then have "lib_getLists lib = Some ls" "\<exists>x\<in>set ls. equal_ignoring_case (list_name x) r"
    by simp_all
  with assms(2) show "\<exists>x s'. getListByName lib r s = (Return (Some x), s') \<and> x \<in> set ls \<and>
      equal_ignoring_case (list_name x) r"
    by (rule getListByName_finds)
next
  assume a: "lib_getLists lib = Some ls \<and>
      (\<exists>x\<in>set ls. equal_ignoring_ascii_case (list_name x) r)"
  then have "lib_getLists lib = Some ls" "\<exists>x\<in>set ls. equal_ignoring_case (list_name x) r"
    by (auto intro: equal_ignoring_ascii_case_imp)
  with assms(2) show "\<exists>x s'. getListByName lib r s = (Return (Some x), s') \<and> x \<in> set ls \<and>
      equal_ignoring_case (list_name x) r"
    by (rule getListByName_finds)
next
  assume a: "lib_getLists lib = Some ls \<and> (\<exists>x\<in>set ls. list_name x = r)"
  then have "lib_getLists lib = Some ls" "\<exists>x\<in>set ls. list_name x = r"
    by simp_all
  with assms(2) show "\<exists>x s'. getListByName lib r s = (Return (Some x), s') \<and> x \<in> set ls \<and>
      list_name x = r"
    by (rule getListByName_prefers_exact)
qed

theorem name_lookup_ignores_case_witness:
  "exact_item_lookup (reference_library [grocery]) \<and>
   exact_list_lookup (reference_library [grocery]) \<and>
   (\<exists>it\<in>set (items (grocery\<lparr>items := [milk\<lparr>name := ''MILK''\<rparr>, milk\<lparr>name := ''milk''\<rparr>]\<rparr>)).
       equal_ignoring_ascii_case (name it) ''milk'') \<and>
   (\<exists>i. findItemByName (reference_library [grocery])
          (grocery\<lparr>items := [milk\<lparr>name := ''MILK''\<rparr>, milk\<lparr>name := ''milk''\<rparr>]\<rparr>) ''milk'' = Some i \<and>
        name ((items (grocery\<lparr>items := [milk\<lparr>name := ''MILK''\<rparr>, milk\<lparr>name := ''milk''\<rparr>]\<rparr>)) ! i)
          = ''milk'') \<and>
   (\<exists>it\<in>set (items grocery). equal_ignoring_case (name it) ''eggs'') \<and>
   (\<exists>i. findItemByName (reference_library [grocery]) grocery ''eggs'' = Some i \<and>
        equal_ignoring_case (name (items grocery ! i)) ''eggs'') \<and>
   lib_getLists (reference_library [grocery]) = Some [grocery] \<and>
   (\<exists>x\<in>set [grocery]. equal_ignoring_ascii_case (list_name x) ''GROCERY'') \<and>
   (\<exists>x s'. getListByName (reference_library [grocery]) ''GROCERY'' (initial_state empty_disk)
             = (Return (Some x), s') \<and> x \<in> set [grocery] \<and>
           equal_ignoring_case (list_name x) ''GROCERY'')"
proof -
  let ?lib = "reference_library [grocery]"
  let ?l = "grocery\<lparr>items := [milk\<lparr>name := ''MILK''\<rparr>, milk\<lparr>name := ''milk''\<rparr>]\<rparr>"
  have A: "exact_item_lookup ?lib" by (rule reference_library_exact_item_lookup)
  have B: "exact_list_lookup ?lib" by (rule reference_library_exact_list_lookup)
  have ex0: "\<exists>it\<in>set (items ?l). equal_ignoring_ascii_case (name it) ''milk''"
    by code_simp
  have ex1: "\<exists>it\<in>set (items ?l). name it = ''milk''"
    by simp
  have ex2: "\<exists>x\<in>set [grocery]. equal_ignoring_ascii_case (list_name x) ''GROCERY''"
    by code_simp
  have ex3: "\<exists>it\<in>set (items grocery). equal_ignoring_case (name it) ''eggs''"
    by code_simp
  have ls: "lib_getLists ?lib = Some [grocery]"
    by (simp add: reference_library_def)
  note T = name_lookup_ignores_case [OF A B, where l = ?l and q = "''milk''"
      and ls = "[grocery]" and r = "''GROCERY''" and s = "initial_state empty_disk"]
  note U = name_lookup_ignores_case [OF A B, where l = grocery and q = "''eggs''"]
  from T ex1 have r1: "\<exists>i. findItemByName ?lib ?l ''milk'' = Some i \<and>
      name ((items ?l) ! i) = ''milk''"
    by blast
  from T ls ex2 have r2: "\<exists>x s'. getListByName ?lib ''GROCERY'' (initial_state empty_disk)
             = (Return (Some x), s') \<and> x \<in> set [grocery] \<and>
           equal_ignoring_case (list_name x) ''GROCERY''"
    by blast
  from U ex3 have r3: "\<exists>i. findItemByName ?lib grocery ''eggs'' = Some i \<and>
        equal_ignoring_case (name (items grocery ! i)) ''eggs''"
    by blast
  from A B ex0 r1 ex3 r3 ls ex2 r2 show ?thesis by blast
qed

text \<open>
  C1 as stated fails where it says that the entry returned equals the query ignoring
  ASCII case whenever such an entry exists. Take a list holding first the name made of
  U+00C9, the capital E with acute accent, followed by \<^verbatim>\<open>CLAIR\<close>, and then the name made
  of U+00E9, the small e with acute accent, followed by \<^verbatim>\<open>CLAIR\<close>; the query is U+00E9
  followed by \<^verbatim>\<open>clair\<close>. No name is exactly the query; \<open>toLowerCase\<close> folds the capital
  E with acute accent too, so the first item is returned. Its name differs from the
  query in more than ASCII case, while the name of the second item does not.
\<close>

theorem lookup_returns_entry_differing_in_non_ascii_case:
  "findItemByName (reference_library [])
     (grocery\<lparr>items := [milk\<lparr>name := CHR 0xC9 # ''CLAIR''\<rparr>,
                        eggs\<lparr>name := CHR 0xE9 # ''CLAIR''\<rparr>]\<rparr>)
     (CHR 0xE9 # ''clair'') = Some 0 \<and>
   \<not> equal_ignoring_ascii_case (CHR 0xC9 # ''CLAIR'') (CHR 0xE9 # ''clair'') \<and>
   equal_ignoring_ascii_case (CHR 0xE9 # ''CLAIR'') (CHR 0xE9 # ''clair'') \<and>
   equal_ignoring_case (CHR 0xC9 # ''CLAIR'') (CHR 0xE9 # ''clair'')"
  by code_simp

section \<open>Clearing checked items\<close>

lemma list_removeItem_by_identifier:
  assumes "removes_by_identifier lib"
  shows "list_removeItem lib l it s =
           (Return (l\<lparr>items := filter (\<lambda>j. item_identifier j \<noteq> item_identifier it) (items l)\<rparr>),
            s\<lparr>trace := trace s @ [RemoveItem it]\<rparr>)"
proof -
  from assms have "lib_removeItem lib it (items l) =
      Some (filter (\<lambda>j. item_identifier j \<noteq> item_identifier it) (items l))"
    unfolding removes_by_identifier_def by blast
  then show ?thesis
    by (simp add: list_removeItem_def bind_io_def io_simps)
qed

lemma clearChecked_loop_by_identifier:
  assumes "removes_by_identifier lib"
  shows "clearChecked_loop lib cs l n s =
           (Return (n + length cs,
                    l\<lparr>items := filter (\<lambda>j. item_identifier j \<notin> item_identifier ` set cs) (items l)\<rparr>),
            s\<lparr>trace := trace s @ map RemoveItem cs\<rparr>)"
proof (induction cs arbitrary: l n s)
  case Nil
  show ?case by simp
next
  case (Cons c cs)
  show ?case
    by (simp add: list_removeItem_by_identifier [OF assms] Cons.IH)
qed

lemma filter_out_checked_identifiers:
  assumes "distinct (map item_identifier xs)"
  shows "filter (\<lambda>j. item_identifier j \<notin> item_identifier ` set (filter checked xs)) xs =
         filter (\<lambda>j. \<not> checked j) xs"
proof (rule filter_cong [OF refl])
  fix j assume j: "j \<in> set xs"
  from assms have inj: "inj_on item_identifier (set xs)"
    by (simp add: distinct_map)
  show "(item_identifier j \<notin> item_identifier ` set (filter checked xs)) = (\<not> checked j)"
  proof
    assume "item_identifier j \<notin> item_identifier ` set (filter checked xs)"
    with j show "\<not> checked j" by auto
  next
    assume nc: "\<not> checked j"
    show "item_identifier j \<notin> item_identifier ` set (filter checked xs)"
    proof
      assume "item_identifier j \<in> item_identifier ` set (filter checked xs)"
      then obtain k where k: "k \<in> set xs" "checked k" "item_identifier k = item_identifier j"
        by auto
      with inj j have "k = j" by (auto dest: inj_onD)
      with k nc show False by simp
    qed
  qed
qed

text \<open>
  C10. Given a library whose \<open>removeItem\<close> removes by identifier, and a list whose items
  have distinct identifiers, \<open>clearChecked\<close> calls \<open>removeItem\<close> once for each checked
  item, in order, and for no other item; it returns the number of checked items and
  leaves exactly the unchecked items, in order and unchanged. On a list with no checked
  item it calls nothing, returns 0 and leaves the list as it was, whatever the library.
\<close>

theorem clearChecked_removes_checked_items:
  assumes "removes_by_identifier lib" and "distinct (map item_identifier (items l))"
  shows "clearChecked lib l s =
           (Return (length (filter checked (items l)),
                    l\<lparr>items := filter (\<lambda>j. \<not> checked j) (items l)\<rparr>),
            s\<lparr>trace := trace s @ map RemoveItem (filter checked (items l))\<rparr>)
       \<and> ((\<forall>it\<in>set (items l). \<not> checked it) \<longrightarrow>
            clearChecked any_lib l s = (Return (0, l), s))"
proof
  show "clearChecked lib l s =
           (Return (length (filter checked (items l)),
                    l\<lparr>items := filter (\<lambda>j. \<not> checked j) (items l)\<rparr>),
            s\<lparr>trace := trace s @ map RemoveItem (filter checked (items l))\<rparr>)"
  proof -
    have "clearChecked lib l s = clearChecked_loop lib (filter checked (items l)) l 0 s"
      by (simp add: clearChecked_def)
    also have "\<dots> = (Return (0 + length (filter checked (items l)),
                    l\<lparr>items := filter (\<lambda>j. item_identifier j \<notin>
                        item_identifier ` set (filter checked (items l))) (items l)\<rparr>),
            s\<lparr>trace := trace s @ map RemoveItem (filter checked (items l))\<rparr>)"
      by (rule clearChecked_loop_by_identifier [OF assms(1)])
    also have "\<dots> = (Return (length (filter checked (items l)),
                    l\<lparr>items := filter (\<lambda>j. \<not> checked j) (items l)\<rparr>),
            s\<lparr>trace := trace s @ map RemoveItem (filter checked (items l))\<rparr>)"
      by (simp only: filter_out_checked_identifiers [OF assms(2)] add_0)
    finally show ?thesis .
  qed
next
  show "(\<forall>it\<in>set (items l). \<not> checked it) \<longrightarrow>
            clearChecked any_lib l s = (Return (0, l), s)"
  proof
    assume "\<forall>it\<in>set (items l). \<not> checked it"
    then have "filter checked (items l) = []" by (simp add: filter_empty_conv)
    then show "clearChecked any_lib l s = (Return (0, l), s)"
      by (simp add: clearChecked_def)
  qed
qed

theorem clearChecked_removes_checked_items_witness:
  "removes_by_identifier (reference_library []) \<and>
   distinct (map item_identifier (items grocery)) \<and>
   clearChecked (reference_library []) grocery (initial_state empty_disk) =
     (Return (1, grocery\<lparr>items := [milk]\<rparr>),
      (initial_state empty_disk)\<lparr>trace := [RemoveItem eggs]\<rparr>) \<and>
   \<not> (\<exists>it\<in>set (items (grocery\<lparr>items := [milk]\<rparr>)). checked it) \<and>
   clearChecked (reference_library []) (grocery\<lparr>items := [milk]\<rparr>) (initial_state empty_disk) =
     (Return (0, grocery\<lparr>items := [milk]\<rparr>), initial_state empty_disk)"
proof -
  have A: "removes_by_identifier (reference_library [])"
    by (rule reference_library_removes_by_identifier)
  have B: "distinct (map item_identifier (items grocery))"
    by (simp add: grocery_def milk_def eggs_def)
  have C: "\<forall>it\<in>set (items (grocery\<lparr>items := [milk]\<rparr>)). \<not> checked it"
    by (simp add: milk_def)
  have D: "distinct (map item_identifier (items (grocery\<lparr>items := [milk]\<rparr>)))"
    by simp
  from clearChecked_removes_checked_items [OF A B, of "initial_state empty_disk"]
  have r1: "clearChecked (reference_library []) grocery (initial_state empty_disk) =
     (Return (1, grocery\<lparr>items := [milk]\<rparr>),
      (initial_state empty_disk)\<lparr>trace := [RemoveItem eggs]\<rparr>)"
    by (simp add: grocery_def milk_def eggs_def initial_state_def)
  from clearChecked_removes_checked_items [OF A D, of "initial_state empty_disk" "reference_library []"] C
  have r2: "clearChecked (reference_library []) (grocery\<lparr>items := [milk]\<rparr>) (initial_state empty_disk) =
     (Return (0, grocery\<lparr>items := [milk]\<rparr>), initial_state empty_disk)"
    by blast
  from A B C r1 r2 show ?thesis by blast
qed

section \<open>Credentials\<close>

lemma loadConfigFromEnv_present:
  assumes "env ''ANYLIST_EMAIL'' = Some e" "env ''ANYLIST_PASSWORD'' = Some p" "e \<noteq> []" "p \<noteq> []"
  shows "loadConfigFromEnv env = Obj [(''email'', Str e), (''password'', Str p)]"
  using assms by (simp add: loadConfigFromEnv_def env_get_def)

text \<open>
  C5. When \<^verbatim>\<open>ANYLIST_EMAIL\<close> and \<^verbatim>\<open>ANYLIST_PASSWORD\<close> are both set and not empty,
  \<open>requireConfig\<close> returns exactly these two values and makes no file system call: the
  state, with its trace, is unchanged, whatever the disk holds. Whenever \<open>requireConfig\<close>
  does touch the file system, the environment did not hold both credentials.
\<close>

theorem requireConfig_prefers_environment:
  "(env ''ANYLIST_EMAIL'' = Some e \<and> env ''ANYLIST_PASSWORD'' = Some p \<and> e \<noteq> [] \<and> p \<noteq> [] \<longrightarrow>
      requireConfig env home s = (Return (Obj [(''email'', Str e), (''password'', Str p)]), s))
   \<and> (trace (snd (requireConfig env home s)) \<noteq> trace s \<longrightarrow>
        \<not> (\<exists>e p. env ''ANYLIST_EMAIL'' = Some e \<and> env ''ANYLIST_PASSWORD'' = Some p \<and>
                 e \<noteq> [] \<and> p \<noteq> []))"
proof -
  have present: "requireConfig env home s = (Return (Obj [(''email'', Str e), (''password'', Str p)]), s)"
    if "env ''ANYLIST_EMAIL'' = Some e" "env ''ANYLIST_PASSWORD'' = Some p" "e \<noteq> []" "p \<noteq> []"
    for e p
    using that by (simp add: requireConfig_def loadConfigFromEnv_present io_simps)
  show ?thesis
  proof (intro conjI impI)
    assume "env ''ANYLIST_EMAIL'' = Some e \<and> env ''ANYLIST_PASSWORD'' = Some p \<and> e \<noteq> [] \<and> p \<noteq> []"
    then show "requireConfig env home s = (Return (Obj [(''email'', Str e), (''password'', Str p)]), s)"
      using present by blast
  next
    assume t: "trace (snd (requireConfig env home s)) \<noteq> trace s"
    show "\<not> (\<exists>e p. env ''ANYLIST_EMAIL'' = Some e \<and> env ''ANYLIST_PASSWORD'' = Some p \<and>
                 e \<noteq> [] \<and> p \<noteq> [])"
    proof
      assume "\<exists>e p. env ''ANYLIST_EMAIL'' = Some e \<and> env ''ANYLIST_PASSWORD'' = Some p \<and>
                 e \<noteq> [] \<and> p \<noteq> []"
      then obtain e p where "env ''ANYLIST_EMAIL'' = Some e" "env ''ANYLIST_PASSWORD'' = Some p"
        "e \<noteq> []" "p \<noteq> []" by blast
      from present [OF this] t show False by simp
    qed
  qed
qed

theorem requireConfig_prefers_environment_witness:
  "env_credentials ''ANYLIST_EMAIL'' = Some ''a@b.c'' \<and>
   env_credentials ''ANYLIST_PASSWORD'' = Some ''secret'' \<and>
   requireConfig env_credentials ''/home/u'' (initial_state loose_disk) =
     (Return (Obj [(''email'', Str ''a@b.c''), (''password'', Str ''secret'')]),
      initial_state loose_disk) \<and>
   trace (snd (requireConfig (\<lambda>k. None) ''/home/u'' (initial_state loose_disk))) \<noteq>
     trace (initial_state loose_disk) \<and>
   \<not> (\<exists>e p. (\<lambda>k. None) ''ANYLIST_EMAIL'' = Some e \<and> (\<lambda>k. None) ''ANYLIST_PASSWORD'' = Some p \<and>
            e \<noteq> [] \<and> p \<noteq> [])"
proof -
  have A: "env_credentials ''ANYLIST_EMAIL'' = Some ''a@b.c'' \<and>
           env_credentials ''ANYLIST_PASSWORD'' = Some ''secret''"
    by (simp add: env_credentials_def)
  have B: "trace (snd (requireConfig (\<lambda>k. None) ''/home/u'' (initial_state loose_disk))) \<noteq>
           trace (initial_state loose_disk)"
  proof -
    have "trace (snd (requireConfig (\<lambda>k. None) ''/home/u'' (initial_state loose_disk))) =
            [ExistsSync ''/home/u/.config/anylist-cli/config.json'',
             ReadFile ''/home/u/.config/anylist-cli/config.json'']"
      by code_simp
    then show ?thesis by (simp add: initial_state_def)
  qed
  from requireConfig_prefers_environment
         [of env_credentials "''a@b.c''" "''secret''" "''/home/u''" "initial_state loose_disk"] A
  have r1: "requireConfig env_credentials ''/home/u'' (initial_state loose_disk) =
     (Return (Obj [(''email'', Str ''a@b.c''), (''password'', Str ''secret'')]),
      initial_state loose_disk)"
    by simp
  from requireConfig_prefers_environment
         [of "\<lambda>k. None" _ _ "''/home/u''" "initial_state loose_disk"] B
  have r2: "\<not> (\<exists>e p. (\<lambda>k. None) ''ANYLIST_EMAIL'' = Some e \<and>
                     (\<lambda>k. None) ''ANYLIST_PASSWORD'' = Some p \<and> e \<noteq> [] \<and> p \<noteq> [])"
    by blast
  from A B r1 r2 show ?thesis by blast
qed

lemma dirname_CONFIG_FILE: "dirname (CONFIG_FILE home) = CONFIG_DIR home"
  by (simp add: dirname_def CONFIG_FILE_def)

lemma ancestors_shorter: "d \<in> set (ancestors p) \<Longrightarrow> length d < length p"
  by (auto simp: ancestors_def)

lemma CONFIG_FILE_not_above_CONFIG_DIR:
  "CONFIG_FILE home \<noteq> CONFIG_DIR home \<and> CONFIG_FILE home \<notin> set (ancestors (CONFIG_DIR home))"
proof -
  have "length (CONFIG_DIR home) < length (CONFIG_FILE home)"
    by (simp add: CONFIG_FILE_def)
  then show ?thesis
    using ancestors_shorter [of "CONFIG_FILE home" "CONFIG_DIR home"] by auto
qed


lemma saveConfig_file:
  assumes "config_location_usable home (fs s)"
  shows "fst (saveConfig home c s) = Return () \<and>
   files (fs (snd (saveConfig home c s))) (CONFIG_FILE home) =
     Some (case files (fs s) (CONFIG_FILE home) of
             None \<Rightarrow> \<lparr>content = JSON_stringify c, mode = 384 AND NOT (umask (fs s))\<rparr>
           | Some old \<Rightarrow> old\<lparr>content := JSON_stringify c\<rparr>) \<and>
   CONFIG_FILE home \<notin> dirs (fs (snd (saveConfig home c s)))"
proof -
  from assms have nd: "CONFIG_FILE home \<notin> dirs (fs s)"
    and nf: "files (fs s) (CONFIG_DIR home) = None"
    and na: "\<forall>d\<in>set (ancestors (CONFIG_DIR home)). files (fs s) d = None"
    and w: "\<And>f. files (fs s) (CONFIG_FILE home) = Some f \<Longrightarrow> owner_may_write (mode f)"
    by (auto simp: config_location_usable_def)
  note above = CONFIG_FILE_not_above_CONFIG_DIR [of home]
  show ?thesis
  proof (cases "CONFIG_DIR home \<in> dirs (fs s)")
    case True
    with nd nf w show ?thesis
      by (cases "files (fs s) (CONFIG_FILE home)")
        (simp_all add: saveConfig_def bind_io_def existsSync_def writeFileSync_def
          dirname_CONFIG_FILE io_simps Let_def)
  next
    case False
    with nd nf na w above show ?thesis
      by (cases "files (fs s) (CONFIG_FILE home)")
        (simp_all add: saveConfig_def bind_io_def existsSync_def mkdirSync_def
          writeFileSync_def dirname_CONFIG_FILE io_simps Let_def)
  qed
qed





text \<open>
  Outside such disks the two calls need not agree. When the file exists and is
  write-only, \<open>saveConfig\<close> rewrites it and \<open>loadConfig\<close> then returns \<open>null\<close>, since the
  mode of an existing file is left as it was. When a directory stands at the path of the
  file, \<open>saveConfig\<close> throws.
\<close>

lemma saveConfig_then_loadConfig_on_write_only_file:
  "fst (saveConfig ''/home/u'' sample_config (initial_state write_only_disk)) = Return () \<and>
   fst (loadConfig ''/home/u''
          (snd (saveConfig ''/home/u'' sample_config (initial_state write_only_disk)))) =
     Return Null"
  by code_simp

lemma saveConfig_throws_on_directory:
  "fst (saveConfig ''/home/u'' sample_config
          (initial_state (empty_disk\<lparr>dirs := {''/home/u/.config/anylist-cli'',
               ''/home/u/.config/anylist-cli/config.json''}\<rparr>))) = Throw"
  by code_simp


text \<open>
  C7, at the input on which the code departs from it: the configuration file exists
  before the call with mode \<^verbatim>\<open>0o644\<close>. \<open>saveConfig\<close> replaces its contents and leaves the
  mode at \<^verbatim>\<open>0o644\<close> (420), not \<^verbatim>\<open>0o600\<close>.
\<close>

theorem saveConfig_keeps_mode_of_existing_file:
  "map_option mode (files (fs (snd (saveConfig ''/home/u'' sample_config (initial_state loose_disk))))
      (CONFIG_FILE ''/home/u'')) = Some 420"
  by code_simp

text \<open>When the call creates the file, its mode is \<^verbatim>\<open>0o600\<close> less the bits of the umask.\<close>

lemma saveConfig_mode_of_new_file:
  assumes "config_location_usable home (fs s)" and "files (fs s) (CONFIG_FILE home) = None"
  shows "map_option mode (files (fs (snd (saveConfig home c s))) (CONFIG_FILE home)) =
           Some (384 AND NOT (umask (fs s)))"
  using saveConfig_file [OF assms(1), of c] assms(2) by simp

section \<open>Adding an item\<close>

lemma uncheck_unchecked: "\<not> checked (r::AnyListItem) \<Longrightarrow> r\<lparr>checked := False\<rparr> = r"
  by simp

lemma addItem_on_existing:
  assumes f: "findItemByName lib l nm = Some i"
  shows "addItem lib l nm qty cat det s =
     (let old = items l ! i;
          new = old\<lparr>checked := False,
                    quantity := (if truthy qty then qty else quantity old),
                    categoryMatchId := (if truthy cat then cat else categoryMatchId old),
                    details := (if det \<noteq> Undefined then det else details old)\<rparr>;
          saved = (checked old \<or> truthy qty \<or> truthy cat \<or> det \<noteq> Undefined)
      in if saved \<and> \<not> lib_save lib new
         then (Throw, s\<lparr>trace := trace s @ [Save new]\<rparr>)
         else (Return (item_info new, l\<lparr>items := (items l)[i := new]\<rparr>),
               s\<lparr>trace := trace s @ (if saved then [Save new] else [])\<rparr>))"
  by (cases "checked (items l ! i)")
    (simp_all add: addItem_def f Let_def item_save_def bind_io_def io_simps uncheck_unchecked)


lemma equal_ignoring_case_refl: "equal_ignoring_case a a"
  by (simp add: equal_ignoring_case_iff)

lemma findItemByName_no_match:
  assumes c: "exact_item_lookup lib"
    and no: "\<forall>it\<in>set (items l). \<not> equal_ignoring_case (name it) nm"
  shows "findItemByName lib l nm = None"
proof -
  have "lib_getItemByName lib (items l) nm = None"
  proof (cases "lib_getItemByName lib (items l) nm")
    case None
    then show ?thesis .
  next
    case (Some i)
    from exact_item_lookup_Some [OF c Some]
    have "items l ! i \<in> set (items l)" "name (items l ! i) = nm" by auto
    with no equal_ignoring_case_refl [of nm] show ?thesis by metis
  qed
  moreover from no have "array_find (\<lambda>x. toLowerCase (name x) = toLowerCase nm) (items l) = None"
    by (simp add: array_find_None equal_ignoring_case_iff)
  ultimately show ?thesis by (simp add: findItemByName_def)
qed

lemma addItem_on_new:
  assumes f: "findItemByName lib l nm = None"
  shows "addItem lib l nm qty cat det s =
     (let options = \<lparr>opt_name = nm,
                     opt_quantity = (if truthy qty then qty else Undefined),
                     opt_details = det,
                     opt_categoryMatchId = (if truthy cat then cat else Undefined)\<rparr>;
          it = lib_createItem lib options
      in case lib_addItem lib it (items l) of
           None \<Rightarrow> (Throw, s\<lparr>trace := trace s @ [CreateItem options, AddItem it]\<rparr>)
         | Some (added, its) \<Rightarrow>
             (Return (item_info added, l\<lparr>items := its\<rparr>),
              s\<lparr>trace := trace s @ [CreateItem options, AddItem it]\<rparr>))"
  by (cases "det = Undefined")
    (simp_all add: addItem_def f Let_def bind_io_def io_simps split: option.splits)

text \<open>
  C9, as the code has it. Given a library whose item lookup is by exact name: when the
  list has an item whose name equals the requested name ignoring case, \<open>addItem\<close> makes no
  \<open>createItem\<close> or \<open>list.addItem\<close> call and leaves the list with the same number of items;
  the existing item ends unchecked; its quantity and category are overwritten exactly when
  the argument is truthy and its details exactly when the argument is not \<open>undefined\<close>;
  \<open>save\<close> is called exactly when the item was checked or one of these arguments was
  supplied; and the result is the info of the updated item. When the list has no such
  item, \<open>addItem\<close> creates one item and adds it.
\<close>

theorem addItem_updates_existing_item:
  assumes "exact_item_lookup lib"
  shows "((\<exists>it\<in>set (items l). equal_ignoring_case (name it) nm) \<longrightarrow>
          (\<exists>i<length (items l). equal_ignoring_case (name (items l ! i)) nm \<and>
             addItem lib l nm qty cat det s =
               (let old = items l ! i;
                    new = old\<lparr>checked := False,
                              quantity := (if truthy qty then qty else quantity old),
                              categoryMatchId := (if truthy cat then cat else categoryMatchId old),
                              details := (if det \<noteq> Undefined then det else details old)\<rparr>;
                    saved = (checked old \<or> truthy qty \<or> truthy cat \<or> det \<noteq> Undefined)
                in if saved \<and> \<not> lib_save lib new
                   then (Throw, s\<lparr>trace := trace s @ [Save new]\<rparr>)
                   else (Return (item_info new, l\<lparr>items := (items l)[i := new]\<rparr>),
                         s\<lparr>trace := trace s @ (if saved then [Save new] else [])\<rparr>))))
       \<and> ((\<forall>it\<in>set (items l). \<not> equal_ignoring_case (name it) nm) \<longrightarrow>
            addItem lib l nm qty cat det s =
              (let options = \<lparr>opt_name = nm,
                              opt_quantity = (if truthy qty then qty else Undefined),
                              opt_details = det,
                              opt_categoryMatchId = (if truthy cat then cat else Undefined)\<rparr>;
                   it = lib_createItem lib options
               in case lib_addItem lib it (items l) of
                    None \<Rightarrow> (Throw, s\<lparr>trace := trace s @ [CreateItem options, AddItem it]\<rparr>)
                  | Some (added, its) \<Rightarrow>
                      (Return (item_info added, l\<lparr>items := its\<rparr>),
                       s\<lparr>trace := trace s @ [CreateItem options, AddItem it]\<rparr>)))"
proof (intro conjI impI)
  assume "\<exists>it\<in>set (items l). equal_ignoring_case (name it) nm"
  from findItemByName_finds [OF assms this]
  obtain i where i: "findItemByName lib l nm = Some i" "i < length (items l)"
    "equal_ignoring_case (name (items l ! i)) nm" by blast
  from i(2) i(3) addItem_on_existing [OF i(1), of qty cat det s]
  show "\<exists>i<length (items l). equal_ignoring_case (name (items l ! i)) nm \<and>
             addItem lib l nm qty cat det s =
               (let old = items l ! i;
                    new = old\<lparr>checked := False,
                              quantity := (if truthy qty then qty else quantity old),
                              categoryMatchId := (if truthy cat then cat else categoryMatchId old),
                              details := (if det \<noteq> Undefined then det else details old)\<rparr>;
                    saved = (checked old \<or> truthy qty \<or> truthy cat \<or> det \<noteq> Undefined)
                in if saved \<and> \<not> lib_save lib new
                   then (Throw, s\<lparr>trace := trace s @ [Save new]\<rparr>)
                   else (Return (item_info new, l\<lparr>items := (items l)[i := new]\<rparr>),
                         s\<lparr>trace := trace s @ (if saved then [Save new] else [])\<rparr>))"
    by blast
next
  assume "\<forall>it\<in>set (items l). \<not> equal_ignoring_case (name it) nm"
  from findItemByName_no_match [OF assms this]
  show "addItem lib l nm qty cat det s =
              (let options = \<lparr>opt_name = nm,
                              opt_quantity = (if truthy qty then qty else Undefined),
                              opt_details = det,
                              opt_categoryMatchId = (if truthy cat then cat else Undefined)\<rparr>;
                   it = lib_createItem lib options
               in case lib_addItem lib it (items l) of
                    None \<Rightarrow> (Throw, s\<lparr>trace := trace s @ [CreateItem options, AddItem it]\<rparr>)
                  | Some (added, its) \<Rightarrow>
                      (Return (item_info added, l\<lparr>items := its\<rparr>),
                       s\<lparr>trace := trace s @ [CreateItem options, AddItem it]\<rparr>))"
    by (rule addItem_on_new)
qed

lemma toLowerCase_samples2:
  "toLowerCase ''bread'' = ''bread''" "toLowerCase ''Bread'' = ''bread''"
  by code_simp+

theorem addItem_updates_existing_item_witness:
  "exact_item_lookup (reference_library []) \<and>
   (\<exists>it\<in>set (items grocery). equal_ignoring_case (name it) ''eggs'') \<and>
   addItem (reference_library []) grocery ''eggs'' Undefined Undefined Undefined
       (initial_state empty_disk) =
     (Return (item_info (eggs\<lparr>checked := False\<rparr>),
              grocery\<lparr>items := [milk, eggs\<lparr>checked := False\<rparr>]\<rparr>),
      (initial_state empty_disk)\<lparr>trace := [Save (eggs\<lparr>checked := False\<rparr>)]\<rparr>) \<and>
   \<not> (\<exists>it\<in>set (items grocery). equal_ignoring_case (name it) ''Bread'') \<and>
   trace (snd (addItem (reference_library []) grocery ''Bread'' Undefined Undefined Undefined
       (initial_state empty_disk))) =
     [CreateItem \<lparr>opt_name = ''Bread'', opt_quantity = Undefined, opt_details = Undefined,
                  opt_categoryMatchId = Undefined\<rparr>,
      AddItem \<lparr>name = ''Bread'', quantity = Undefined, details = Undefined, checked = False,
               item_identifier = ''new'', categoryMatchId = Undefined\<rparr>]"
proof -
  let ?lib = "reference_library []"
  let ?s = "initial_state empty_disk"
  have A: "exact_item_lookup ?lib" by (rule reference_library_exact_item_lookup)
  have ex: "\<exists>it\<in>set (items grocery). equal_ignoring_case (name it) ''eggs''"
    by (simp add: grocery_def eggs_def equal_ignoring_case_iff toLowerCase_samples)
  have no: "\<forall>it\<in>set (items grocery). \<not> equal_ignoring_case (name it) ''Bread''"
    by (simp add: grocery_def eggs_def milk_def equal_ignoring_case_iff toLowerCase_samples
        toLowerCase_samples2)
  from addItem_updates_existing_item [OF A, where l = grocery and nm = "''eggs''"
      and qty = Undefined and cat = Undefined and det = Undefined and s = ?s] ex
  obtain i where i: "i < length (items grocery)"
      "equal_ignoring_case (name (items grocery ! i)) ''eggs''"
    and r: "addItem ?lib grocery ''eggs'' Undefined Undefined Undefined ?s =
               (let old = items grocery ! i;
                    new = old\<lparr>checked := False,
                              quantity := (if truthy Undefined then Undefined else quantity old),
                              categoryMatchId := (if truthy Undefined then Undefined else categoryMatchId old),
                              details := (if Undefined \<noteq> Undefined then Undefined else details old)\<rparr>;
                    saved = (checked old \<or> truthy Undefined \<or> truthy Undefined \<or> Undefined \<noteq> Undefined)
                in if saved \<and> \<not> lib_save ?lib new
                   then (Throw, ?s\<lparr>trace := trace ?s @ [Save new]\<rparr>)
                   else (Return (item_info new, grocery\<lparr>items := (items grocery)[i := new]\<rparr>),
                         ?s\<lparr>trace := trace ?s @ (if saved then [Save new] else [])\<rparr>))"
    by blast
  from i have "i = 1"
    by (cases i) (simp_all add: grocery_def milk_def equal_ignoring_case_iff toLowerCase_samples)
  with r have r1: "addItem ?lib grocery ''eggs'' Undefined Undefined Undefined ?s =
     (Return (item_info (eggs\<lparr>checked := False\<rparr>),
              grocery\<lparr>items := [milk, eggs\<lparr>checked := False\<rparr>]\<rparr>),
      ?s\<lparr>trace := [Save (eggs\<lparr>checked := False\<rparr>)]\<rparr>)"
    by (simp add: grocery_def eggs_def reference_library_def initial_state_def Let_def)
  from addItem_updates_existing_item [OF A, where l = grocery and nm = "''Bread''"
      and qty = Undefined and cat = Undefined and det = Undefined and s = ?s] no
  have "addItem ?lib grocery ''Bread'' Undefined Undefined Undefined ?s =
              (let options = \<lparr>opt_name = ''Bread'',
                              opt_quantity = (if truthy Undefined then Undefined else Undefined),
                              opt_details = Undefined,
                              opt_categoryMatchId = (if truthy Undefined then Undefined else Undefined)\<rparr>;
                   it = lib_createItem ?lib options
               in case lib_addItem ?lib it (items grocery) of
                    None \<Rightarrow> (Throw, ?s\<lparr>trace := trace ?s @ [CreateItem options, AddItem it]\<rparr>)
                  | Some (added, its) \<Rightarrow>
                      (Return (item_info added, grocery\<lparr>items := its\<rparr>),
                       ?s\<lparr>trace := trace ?s @ [CreateItem options, AddItem it]\<rparr>))"
    by blast
  then have r2: "trace (snd (addItem ?lib grocery ''Bread'' Undefined Undefined Undefined ?s)) =
     [CreateItem \<lparr>opt_name = ''Bread'', opt_quantity = Undefined, opt_details = Undefined,
                  opt_categoryMatchId = Undefined\<rparr>,
      AddItem \<lparr>name = ''Bread'', quantity = Undefined, details = Undefined, checked = False,
               item_identifier = ''new'', categoryMatchId = Undefined\<rparr>]"
    by (simp add: reference_library_def initial_state_def Let_def)
  from A ex r1 no r2 show ?thesis by blast
qed

text \<open>
  C9 as stated fails where it says that \<open>save\<close> is called exactly when a field changed:
  adding \<open>milk\<close> with quantity \<open>2\<close> to a list whose unchecked item \<open>Milk\<close> already has
  quantity \<open>2\<close> leaves the list as it was and still calls \<open>save\<close>.
\<close>

theorem addItem_saves_unchanged_item:
  "fst (addItem (reference_library []) grocery ''milk'' (Str ''2'') Undefined Undefined
          (initial_state empty_disk)) = Return (item_info milk, grocery) \<and>
   trace (snd (addItem (reference_library []) grocery ''milk'' (Str ''2'') Undefined Undefined
          (initial_state empty_disk))) = [Save milk]"
  by code_simp

section \<open>Commands\<close>

lemma requireConfig_no_item_change:
  "filter changes_items (trace (snd (requireConfig env home s))) = filter changes_items (trace s)"
  by (simp add: requireConfig_def loadConfig_def existsSync_def readFileSync_def JSON_parse_def
      try_catch_def bind_io_def io_simps Let_def split: option.splits file_text.splits)

lemma getAuthenticatedClient_no_item_change:
  "filter changes_items (trace (snd (getAuthenticatedClient w s))) = filter changes_items (trace s)"
proof (cases "requireConfig (w_env w) (w_home w) s")
  case (Pair r s')
  with requireConfig_no_item_change [of "w_env w" "w_home w" s]
  have t: "filter changes_items (trace s') = filter changes_items (trace s)" by simp
  show ?thesis
    using Pair t
    by (cases r)
      (simp_all add: getAuthenticatedClient_def getClient_def try_catch_def bind_io_def io_simps)
qed

lemma getListByName_no_item_change:
  "filter changes_items (trace (snd (getListByName lib nm s))) = filter changes_items (trace s)"
  by (simp add: getListByName_def client_getLists_def bind_io_def io_simps Let_def
      split: option.splits)

lemma teardown_no_item_change:
  "filter changes_items (trace (snd (teardown s))) = filter changes_items (trace s)"
  by (simp add: teardown_def)

lemma category_key_lookup:
  assumes "k \<in> set category_keys"
  shows "\<exists>v. (k, Str v) \<in> set category_entries \<and> v \<noteq> [] \<and>
             get_prop ANYLIST_CATEGORIES k = Str v"
  using assms
  unfolding category_keys_def category_entries_def ANYLIST_CATEGORIES_def
  by auto

lemma category_unknown_lookup:
  assumes "k \<notin> set category_keys" and "object_prototype k = Undefined"
  shows "get_prop ANYLIST_CATEGORIES k = Undefined"
proof -
  from assms(1) have "map_of category_entries k = None"
    unfolding category_keys_def category_entries_def
    by (simp add: map_of_eq_None_iff ANYLIST_CATEGORIES_def)
  with assms(2) show ?thesis
    by (simp add: category_entries_def ANYLIST_CATEGORIES_def)
qed

lemma sample_getAuthenticatedClient:
  "getAuthenticatedClient (sample_world (reference_library ls)) (initial_state disk) =
     (Return (), (initial_state disk)\<lparr>clientInstance := True,
                   trace := [Login (Str ''a@b.c'') (Str ''secret'')]\<rparr>)"
  by (simp add: getAuthenticatedClient_def sample_world_def requireConfig_def
      loadConfigFromEnv_def env_get_def env_credentials_def getClient_def reference_library_def
      try_catch_def bind_io_def io_simps initial_state_def)

lemma sample_getListByName_nope:
  "getListByName (reference_library [grocery]) ''nope'' s =
     (Return None, s\<lparr>trace := trace s @ [GetLists, GetLists]\<rparr>)"
proof -
  have "toLowerCase ''nope'' = ''nope''" by code_simp
  then show ?thesis
    by (simp add: getListByName_def client_getLists_def reference_library_def grocery_def
        bind_io_def io_simps toLowerCase_samples)
qed

lemma sample_getListByName_Grocery:
  "getListByName (reference_library [grocery]) ''Grocery'' s =
     (Return (Some grocery), s\<lparr>trace := trace s @ [GetLists]\<rparr>)"
  by (simp add: getListByName_def client_getLists_def reference_library_def grocery_def
        bind_io_def io_simps)

lemma sample_findItemByName_nope:
  "findItemByName (reference_library ls) grocery ''nope'' = None"
  by code_simp

text \<open>
  C3. Once the client is authenticated: when \<open>getListByName\<close> returns no list, each of
  \<open>items\<close>, \<open>add\<close>, \<open>check\<close>, \<open>uncheck\<close>, \<open>remove\<close> and \<open>clear\<close> exits with code 1;
  when the list is found and \<open>findItemByName\<close> finds no item in it, \<open>checkItem\<close> and
  \<open>uncheckItem\<close> return \<open>null\<close>, \<open>removeItem\<close> returns \<open>false\<close>, none of them calls the
  library, and \<open>check\<close>, \<open>uncheck\<close> and \<open>remove\<close> exit with code 1.
\<close>

theorem missing_names_exit_with_failure:
  "(getAuthenticatedClient w (initial_state disk) = (Return (), sa) \<and>
    getListByName (w_lib w) listName sa = (Return None, sb) \<longrightarrow>
      exit_code w disk (Items listName u) = exit_value Failure \<and>
      exit_code w disk (Add listName itemName q c) = exit_value Failure \<and>
      exit_code w disk (Check listName itemName) = exit_value Failure \<and>
      exit_code w disk (Uncheck listName itemName) = exit_value Failure \<and>
      exit_code w disk (Remove listName itemName) = exit_value Failure \<and>
      exit_code w disk (Clear listName) = exit_value Failure)
   \<and> (getAuthenticatedClient w (initial_state disk) = (Return (), sa) \<and>
      getListByName (w_lib w) listName sa = (Return (Some l), sb) \<and>
      findItemByName (w_lib w) l itemName = None \<longrightarrow>
        checkItem (w_lib w) l itemName sb = (Return (None, l), sb) \<and>
        uncheckItem (w_lib w) l itemName sb = (Return (None, l), sb) \<and>
        removeItem (w_lib w) l itemName sb = (Return (False, l), sb) \<and>
        exit_code w disk (Check listName itemName) = exit_value Failure \<and>
        exit_code w disk (Uncheck listName itemName) = exit_value Failure \<and>
        exit_code w disk (Remove listName itemName) = exit_value Failure)"
  by (simp add: exit_code_def run_def exit_status_def items_action_def add_action_def
      check_action_def uncheck_action_def remove_action_def clear_action_def
      checkItem_def uncheckItem_def removeItem_def
      try_catch_def bind_io_def teardown_def io_simps)

theorem missing_names_exit_with_failure_witness:
  "getAuthenticatedClient (sample_world (reference_library [grocery])) (initial_state empty_disk) =
     (Return (), (initial_state empty_disk)\<lparr>clientInstance := True,
                   trace := [Login (Str ''a@b.c'') (Str ''secret'')]\<rparr>) \<and>
   getListByName (reference_library [grocery]) ''nope''
       ((initial_state empty_disk)\<lparr>clientInstance := True,
           trace := [Login (Str ''a@b.c'') (Str ''secret'')]\<rparr>) =
     (Return None, (initial_state empty_disk)\<lparr>clientInstance := True,
           trace := [Login (Str ''a@b.c'') (Str ''secret''), GetLists, GetLists]\<rparr>) \<and>
   exit_code (sample_world (reference_library [grocery])) empty_disk (Clear ''nope'') = 1 \<and>
   exit_code (sample_world (reference_library [grocery])) empty_disk (Add ''nope'' ''Milk'' None None) = 1 \<and>
   getListByName (reference_library [grocery]) ''Grocery''
       ((initial_state empty_disk)\<lparr>clientInstance := True,
           trace := [Login (Str ''a@b.c'') (Str ''secret'')]\<rparr>) =
     (Return (Some grocery), (initial_state empty_disk)\<lparr>clientInstance := True,
           trace := [Login (Str ''a@b.c'') (Str ''secret''), GetLists]\<rparr>) \<and>
   findItemByName (reference_library [grocery]) grocery ''nope'' = None \<and>
   exit_code (sample_world (reference_library [grocery])) empty_disk (Check ''Grocery'' ''nope'') = 1 \<and>
   exit_code (sample_world (reference_library [grocery])) empty_disk (Remove ''Grocery'' ''nope'') = 1"
proof -
  let ?w = "sample_world (reference_library [grocery])"
  let ?s1 = "(initial_state empty_disk)\<lparr>clientInstance := True,
                   trace := [Login (Str ''a@b.c'') (Str ''secret'')]\<rparr>"
  have lib: "w_lib ?w = reference_library [grocery]" by (simp add: sample_world_def)
  have A: "getAuthenticatedClient ?w (initial_state empty_disk) = (Return (), ?s1)"
    by (rule sample_getAuthenticatedClient)
  have B: "getListByName (w_lib ?w) ''nope'' ?s1 =
      (Return None, (initial_state empty_disk)\<lparr>clientInstance := True,
           trace := [Login (Str ''a@b.c'') (Str ''secret''), GetLists, GetLists]\<rparr>)"
    by (simp add: lib sample_getListByName_nope)
  have C: "getListByName (w_lib ?w) ''Grocery'' ?s1 =
      (Return (Some grocery), (initial_state empty_disk)\<lparr>clientInstance := True,
           trace := [Login (Str ''a@b.c'') (Str ''secret''), GetLists]\<rparr>)"
    by (simp add: lib sample_getListByName_Grocery)
  have D: "findItemByName (w_lib ?w) grocery ''nope'' = None"
    by (simp add: lib sample_findItemByName_nope)
  note T1 = missing_names_exit_with_failure [where w = ?w and disk = empty_disk and sa = ?s1
      and listName = "''nope''" and itemName = "''Milk''" and q = None and c = None,
      THEN conjunct1, rule_format, OF conjI [OF A B]]
  note T2 = missing_names_exit_with_failure [where w = ?w and disk = empty_disk and sa = ?s1
      and listName = "''Grocery''" and itemName = "''nope''" and l = grocery,
      THEN conjunct2, rule_format, OF conjI [OF A conjI [OF C D]]]
  from T1 have r1: "exit_code ?w empty_disk (Clear ''nope'') = 1"
    "exit_code ?w empty_disk (Add ''nope'' ''Milk'' None None) = 1" by simp_all
  from T2 have r2: "exit_code ?w empty_disk (Check ''Grocery'' ''nope'') = 1"
    "exit_code ?w empty_disk (Remove ''Grocery'' ''nope'') = 1" by simp_all
  from A B C D r1 r2 lib show ?thesis by simp
qed

text \<open>
  C2, as the code has it. Once the client is authenticated and the list is found: a
  non-empty \<^verbatim>\<open>--category\<close> value whose lower-case form is neither a key of
  \<open>ANYLIST_CATEGORIES\<close> nor the name of a member inherited from \<^verbatim>\<open>Object.prototype\<close>
  makes \<open>add\<close> tear the client down and exit with code 2, and the process has made no
  call that creates, changes or removes an item. A value whose lower-case form is a key
  is mapped to the identifier stored under that key.
\<close>

theorem add_rejects_unknown_category:
  assumes auth: "getAuthenticatedClient w (initial_state disk) = (Return (), sa)"
    and found: "getListByName (w_lib w) listName sa = (Return (Some l), sb)"
  shows "(c \<noteq> [] \<and> toLowerCase c \<notin> set category_keys \<and>
          object_prototype (toLowerCase c) = Undefined \<longrightarrow>
            exit_code w disk (Add listName itemName q (Some c)) = exit_value InvalidUsage \<and>
            snd (run w disk (Add listName itemName q (Some c))) = snd (teardown sb) \<and>
            filter changes_items (trace (snd (run w disk (Add listName itemName q (Some c))))) = [])
       \<and> (toLowerCase c \<in> set category_keys \<longrightarrow>
            (\<exists>v. (toLowerCase c, Str v) \<in> set category_entries \<and>
                 map_category (Some c) s = (Return (Str v), s)))"
proof (intro conjI impI)
  assume u: "c \<noteq> [] \<and> toLowerCase c \<notin> set category_keys \<and>
          object_prototype (toLowerCase c) = Undefined"
  then have g: "get_prop ANYLIST_CATEGORIES (toLowerCase c) = Undefined"
    by (simp add: category_unknown_lookup)
  from u g have m: "map_category (Some c) sb = (Exit (exit_value InvalidUsage), snd (teardown sb))"
    by (simp add: map_category_def bind_io_def teardown_def io_simps)
  have r: "run w disk (Add listName itemName q (Some c)) =
             (Exit (exit_value InvalidUsage), snd (teardown sb))"
    by (simp add: run_def add_action_def try_catch_def bind_io_def auth found m)
  show "exit_code w disk (Add listName itemName q (Some c)) = exit_value InvalidUsage"
    by (simp add: exit_code_def r exit_status_def)
  show "snd (run w disk (Add listName itemName q (Some c))) = snd (teardown sb)"
    by (simp add: r)
  have "filter changes_items (trace (snd (teardown sb))) = filter changes_items (trace sb)"
    by (rule teardown_no_item_change)
  also have "\<dots> = filter changes_items (trace sa)"
    using getListByName_no_item_change [of "w_lib w" listName sa] found by simp
  also have "\<dots> = filter changes_items (trace (initial_state disk))"
    using getAuthenticatedClient_no_item_change [of w "initial_state disk"] auth by simp
  finally show "filter changes_items
      (trace (snd (run w disk (Add listName itemName q (Some c))))) = []"
    by (simp add: r initial_state_def)
next
  assume k: "toLowerCase c \<in> set category_keys"
  from category_key_lookup [OF k] obtain v where
    v: "(toLowerCase c, Str v) \<in> set category_entries" "v \<noteq> []"
       "get_prop ANYLIST_CATEGORIES (toLowerCase c) = Str v" by blast
  have "c \<noteq> []"
  proof
    assume "c = []"
    with k show False by (simp add: toLowerCase_def category_keys_def ANYLIST_CATEGORIES_def)
  qed
  with v have "map_category (Some c) s = (Return (Str v), s)"
    by (simp add: map_category_def io_simps)
  with v(1) show "\<exists>v. (toLowerCase c, Str v) \<in> set category_entries \<and>
                 map_category (Some c) s = (Return (Str v), s)" by blast
qed

theorem add_rejects_unknown_category_witness:
  "getAuthenticatedClient (sample_world (reference_library [grocery])) (initial_state empty_disk) =
     (Return (), (initial_state empty_disk)\<lparr>clientInstance := True,
                   trace := [Login (Str ''a@b.c'') (Str ''secret'')]\<rparr>) \<and>
   getListByName (reference_library [grocery]) ''Grocery''
       ((initial_state empty_disk)\<lparr>clientInstance := True,
           trace := [Login (Str ''a@b.c'') (Str ''secret'')]\<rparr>) =
     (Return (Some grocery), (initial_state empty_disk)\<lparr>clientInstance := True,
           trace := [Login (Str ''a@b.c'') (Str ''secret''), GetLists]\<rparr>) \<and>
   toLowerCase ''Xyz'' \<notin> set category_keys \<and>
   object_prototype (toLowerCase ''Xyz'') = Undefined \<and>
   exit_code (sample_world (reference_library [grocery])) empty_disk
     (Add ''Grocery'' ''Milk'' None (Some ''Xyz'')) = 2 \<and>
   filter changes_items (trace (snd (run (sample_world (reference_library [grocery])) empty_disk
     (Add ''Grocery'' ''Milk'' None (Some ''Xyz''))))) = [] \<and>
   toLowerCase ''Dairy'' \<in> set category_keys \<and>
   (\<exists>v. (toLowerCase ''Dairy'', Str v) \<in> set category_entries \<and>
        map_category (Some ''Dairy'') (initial_state empty_disk) =
          (Return (Str v), initial_state empty_disk))"
proof -
  let ?w = "sample_world (reference_library [grocery])"
  let ?s1 = "(initial_state empty_disk)\<lparr>clientInstance := True,
                   trace := [Login (Str ''a@b.c'') (Str ''secret'')]\<rparr>"
  let ?s2 = "(initial_state empty_disk)\<lparr>clientInstance := True,
                   trace := [Login (Str ''a@b.c'') (Str ''secret''), GetLists]\<rparr>"
  have lib: "w_lib ?w = reference_library [grocery]" by (simp add: sample_world_def)
  have A: "getAuthenticatedClient ?w (initial_state empty_disk) = (Return (), ?s1)"
    by (rule sample_getAuthenticatedClient)
  have B: "getListByName (w_lib ?w) ''Grocery'' ?s1 = (Return (Some grocery), ?s2)"
    by (simp add: lib sample_getListByName_Grocery)
  have C: "toLowerCase ''Xyz'' \<notin> set category_keys"
    "object_prototype (toLowerCase ''Xyz'') = Undefined"
    "toLowerCase ''Dairy'' \<in> set category_keys"
    by code_simp+
  note T = add_rejects_unknown_category [OF A B, where itemName = "''Milk''" and q = None
      and s = "initial_state empty_disk"]
  from T [where c = "''Xyz''"] C(1,2)
  have t: "exit_code ?w empty_disk (Add ''Grocery'' ''Milk'' None (Some ''Xyz'')) =
        exit_value InvalidUsage"
    "filter changes_items (trace (snd (run ?w empty_disk
        (Add ''Grocery'' ''Milk'' None (Some ''Xyz''))))) = []"
    by blast+
  from t(1) have r1: "exit_code ?w empty_disk (Add ''Grocery'' ''Milk'' None (Some ''Xyz'')) = 2"
    by simp
  from T [where c = "''Dairy''"] C(3)
  have r2: "\<exists>v. (toLowerCase ''Dairy'', Str v) \<in> set category_entries \<and>
        map_category (Some ''Dairy'') (initial_state empty_disk) =
          (Return (Str v), initial_state empty_disk)"
    by blast
  from A B C r1 t(2) r2 lib show ?thesis by simp
qed

text \<open>
  C2 as stated fails when the list is not found: that check comes first, and \<open>add\<close>
  exits with code 1 whatever the category.
\<close>

theorem add_unknown_category_on_missing_list:
  "toLowerCase ''xyz'' \<notin> set category_keys \<and>
   exit_code (sample_world (reference_library [grocery])) empty_disk
     (Add ''nope'' ''Milk'' None (Some ''xyz'')) = 1"
  by code_simp

text \<open>
  Two more values that are not keys and are not rejected. The lower-case form
  \<open>constructor\<close> names a member that the table inherits, so the lookup yields a function
  and the item is saved with it as its category. An empty value skips the lookup.
\<close>

lemma add_inherited_member_as_category:
  "toLowerCase ''Constructor'' \<notin> set category_keys \<and>
   exit_code (sample_world (reference_library [grocery])) empty_disk
     (Add ''Grocery'' ''Milk'' None (Some ''Constructor'')) = 0 \<and>
   trace (snd (run (sample_world (reference_library [grocery])) empty_disk
     (Add ''Grocery'' ''Milk'' None (Some ''Constructor'')))) =
     [Login (Str ''a@b.c'') (Str ''secret''), GetLists,
      Save (milk\<lparr>categoryMatchId := Fun ''Object''\<rparr>), ClientTeardown]"
  by code_simp

lemma add_empty_category:
  "exit_code (sample_world (reference_library [grocery])) empty_disk
     (Add ''Grocery'' ''Bread'' None (Some [])) = 0"
  by code_simp

text \<open>
  C8, at an input on which the code departs from it: \<open>check\<close> on an existing item when
  \<open>save\<close> rejects. The rejection is caught at the end of the action, which exits with code
  1; \<open>teardown\<close> is not called and \<open>clientInstance\<close> still holds the client.
\<close>

theorem check_exits_without_teardown_when_save_rejects:
  "exit_code (sample_world ((reference_library [grocery])\<lparr>lib_save := (\<lambda>it. False)\<rparr>))
       empty_disk (Check ''Grocery'' ''Milk'') = 1 \<and>
   trace (snd (run (sample_world ((reference_library [grocery])\<lparr>lib_save := (\<lambda>it. False)\<rparr>))
       empty_disk (Check ''Grocery'' ''Milk''))) =
     [Login (Str ''a@b.c'') (Str ''secret''), GetLists, Save (milk\<lparr>checked := True\<rparr>)] \<and>
   clientInstance (snd (run (sample_world ((reference_library [grocery])\<lparr>lib_save := (\<lambda>it. False)\<rparr>))
       empty_disk (Check ''Grocery'' ''Milk'')))"
  by code_simp

text \<open>
  The other ends of the same command do call \<open>teardown\<close> first: the item is checked, the
  item is not found, the list is not found.
\<close>

lemma check_tears_down_on_other_paths:
  "trace (snd (run (sample_world (reference_library [grocery])) empty_disk
       (Check ''Grocery'' ''Milk''))) =
     [Login (Str ''a@b.c'') (Str ''secret''), GetLists, Save (milk\<lparr>checked := True\<rparr>),
      ClientTeardown] \<and>
   trace (snd (run (sample_world (reference_library [grocery])) empty_disk
       (Check ''Grocery'' ''nope''))) =
     [Login (Str ''a@b.c'') (Str ''secret''), GetLists, ClientTeardown] \<and>
   trace (snd (run (sample_world (reference_library [grocery])) empty_disk
       (Check ''nope'' ''Milk''))) =
     [Login (Str ''a@b.c'') (Str ''secret''), GetLists, GetLists, ClientTeardown]"
  by code_simp

section \<open>Exit codes\<close>

lemma ok_return: "exits_within_codes (return_io x)"
  by (simp add: exits_within_codes_def return_io_def)

lemma ok_throw: "exits_within_codes throw_io"
  by (simp add: exits_within_codes_def throw_io_def)

lemma ok_emit: "exits_within_codes (emit e)"
  by (simp add: exits_within_codes_def emit_def)

lemma ok_exit: "1 \<le> c \<Longrightarrow> c \<le> 3 \<Longrightarrow> exits_within_codes (process_exit c)"
  by (simp add: exits_within_codes_def process_exit_def)

lemma ok_pure: "exits_within_codes (\<lambda>s. (Return (f s), g s))"
  by (simp add: exits_within_codes_def)

lemma ok_bind:
  assumes "exits_within_codes m" and "\<And>a. exits_within_codes (f a)"
  shows "exits_within_codes (bind_io m f)"
  unfolding exits_within_codes_def
proof (intro allI impI)
  fix s c s' assume e: "bind_io m f s = (Exit c, s')"
  obtain r t where m: "m s = (r, t)" by (cases "m s")
  show "1 \<le> c \<and> c \<le> 3"
  proof (cases r)
    case (Return a)
    with m e have "f a t = (Exit c, s')" by (simp add: bind_io_def)
    with assms(2) show ?thesis unfolding exits_within_codes_def by blast
  next
    case Throw
    with m e show ?thesis by (simp add: bind_io_def)
  next
    case (Exit d)
    with m e have "m s = (Exit c, s')" by (simp add: bind_io_def)
    with assms(1) show ?thesis unfolding exits_within_codes_def by blast
  qed
qed

lemma ok_try:
  assumes "exits_within_codes m" and "exits_within_codes h"
  shows "exits_within_codes (try_catch m h)"
  unfolding exits_within_codes_def
proof (intro allI impI)
  fix s c s' assume e: "try_catch m h s = (Exit c, s')"
  obtain r t where m: "m s = (r, t)" by (cases "m s")
  show "1 \<le> c \<and> c \<le> 3"
  proof (cases r)
    case (Return a)
    with m e show ?thesis by (simp add: try_catch_def)
  next
    case Throw
    with m e have "h t = (Exit c, s')" by (simp add: try_catch_def)
    with assms(2) show ?thesis unfolding exits_within_codes_def by blast
  next
    case (Exit d)
    with m e have "m s = (Exit c, s')" by (simp add: try_catch_def)
    with assms(1) show ?thesis unfolding exits_within_codes_def by blast
  qed
qed

lemmas ok_intros = ok_return ok_throw ok_emit ok_exit ok_pure ok_bind ok_try

lemma ok_teardown: "exits_within_codes teardown"
  by (auto simp: exits_within_codes_def teardown_def)

lemma ok_getClient: "exits_within_codes (getClient lib e p)"
  unfolding getClient_def by (auto intro!: ok_intros)

lemma ok_client_getLists: "exits_within_codes (client_getLists lib)"
  unfolding client_getLists_def by (auto intro!: ok_intros split: option.splits)

lemma ok_getLists: "exits_within_codes (getLists lib)"
  unfolding getLists_def by (auto intro!: ok_intros ok_client_getLists)

lemma ok_getListByName: "exits_within_codes (getListByName lib nm)"
  unfolding getListByName_def
  by (auto intro!: ok_intros ok_client_getLists simp: Let_def split: option.splits)

lemma ok_item_save: "exits_within_codes (item_save lib it)"
  unfolding item_save_def by (auto intro!: ok_intros)

lemma ok_list_removeItem: "exits_within_codes (list_removeItem lib l it)"
  unfolding list_removeItem_def by (auto intro!: ok_intros split: option.splits)

lemma ok_addItem: "exits_within_codes (addItem lib l nm q c d)"
  unfolding addItem_def
  by (auto intro!: ok_intros ok_item_save simp: Let_def split: option.splits prod.splits)

lemma ok_checkItem: "exits_within_codes (checkItem lib l nm)"
  unfolding checkItem_def
  by (auto intro!: ok_intros ok_item_save simp: Let_def split: option.splits)

lemma ok_uncheckItem: "exits_within_codes (uncheckItem lib l nm)"
  unfolding uncheckItem_def
  by (auto intro!: ok_intros ok_item_save simp: Let_def split: option.splits)

lemma ok_removeItem: "exits_within_codes (removeItem lib l nm)"
  unfolding removeItem_def
  by (auto intro!: ok_intros ok_list_removeItem split: option.splits)

lemma clearChecked_loop_no_exit: "clearChecked_loop lib cs l n s \<noteq> (Exit c, s')"
proof (induction cs arbitrary: l n s)
  case Nil
  show ?case by simp
next
  case (Cons x xs)
  obtain r t where m: "list_removeItem lib l x s = (r, t)" by (cases "list_removeItem lib l x s")
  show ?case
  proof (cases r)
    case (Return a)
    with m Cons.IH show ?thesis by simp
  next
    case Throw
    with m show ?thesis by simp
  next
    case (Exit d)
    with m have False
      by (simp add: list_removeItem_def bind_io_def io_simps split: option.splits)
    then show ?thesis ..
  qed
qed

lemma ok_clearChecked: "exits_within_codes (clearChecked lib l)"
  by (simp add: exits_within_codes_def clearChecked_def clearChecked_loop_no_exit)

lemma ok_existsSync: "exits_within_codes (existsSync p)"
  by (simp add: exits_within_codes_def existsSync_def)

lemma ok_readFileSync: "exits_within_codes (readFileSync p)"
  by (simp add: exits_within_codes_def readFileSync_def Let_def split: option.splits)

lemma ok_writeFileSync: "exits_within_codes (writeFileSync p d m)"
  by (simp add: exits_within_codes_def writeFileSync_def Let_def split: option.splits)

lemma ok_mkdirSync: "exits_within_codes (mkdirSync p)"
  by (simp add: exits_within_codes_def mkdirSync_def Let_def)

lemma ok_unlinkSync: "exits_within_codes (unlinkSync p)"
  by (simp add: exits_within_codes_def unlinkSync_def Let_def)

lemma ok_JSON_parse: "exits_within_codes (JSON_parse d)"
  unfolding JSON_parse_def by (auto intro!: ok_intros split: file_text.splits)

lemma ok_loadConfig: "exits_within_codes (loadConfig home)"
  unfolding loadConfig_def
  by (auto intro!: ok_intros ok_existsSync ok_readFileSync ok_JSON_parse)

lemma ok_saveConfig: "exits_within_codes (saveConfig home c)"
  unfolding saveConfig_def
  by (auto intro!: ok_intros ok_existsSync ok_mkdirSync ok_writeFileSync)

lemma ok_clearConfig: "exits_within_codes (clearConfig home)"
  unfolding clearConfig_def
  by (auto intro!: ok_intros ok_existsSync ok_unlinkSync simp: Let_def)

lemma ok_requireConfig: "exits_within_codes (requireConfig env home)"
  unfolding requireConfig_def
  by (auto intro!: ok_intros ok_loadConfig simp: Let_def)

lemma ok_getAuthenticatedClient: "exits_within_codes (getAuthenticatedClient w)"
  unfolding getAuthenticatedClient_def
  by (auto intro!: ok_intros ok_requireConfig ok_getClient)

lemma ok_prompt: "exits_within_codes (prompt w h)"
  unfolding prompt_def by (auto intro!: ok_intros split: option.splits)

lemma ok_map_category: "exits_within_codes (map_category c)"
  unfolding map_category_def
  by (auto intro!: ok_intros ok_teardown simp: Let_def split: option.splits)

lemma ok_auth_action: "exits_within_codes (auth_action w)"
  unfolding auth_action_def
  by (auto intro!: ok_intros ok_prompt ok_getClient ok_getLists ok_teardown ok_saveConfig)

lemma ok_logout_action: "exits_within_codes (logout_action w)"
  unfolding logout_action_def by (rule ok_clearConfig)

lemma ok_whoami_action: "exits_within_codes (whoami_action w)"
  unfolding whoami_action_def by (auto intro!: ok_intros ok_loadConfig)

lemma ok_lists_action: "exits_within_codes (lists_action w)"
  unfolding lists_action_def
  by (auto intro!: ok_intros ok_getAuthenticatedClient ok_getLists ok_teardown)

lemma ok_items_action: "exits_within_codes (items_action w listName u)"
  unfolding items_action_def
  by (auto intro!: ok_intros ok_getAuthenticatedClient ok_getListByName ok_teardown
      simp: Let_def split: option.splits)

lemma ok_add_action: "exits_within_codes (add_action w listName itemName q c)"
  unfolding add_action_def
  by (auto intro!: ok_intros ok_getAuthenticatedClient ok_getListByName ok_teardown
      ok_map_category ok_addItem split: option.splits)

lemma ok_check_action: "exits_within_codes (check_action w listName itemName)"
  unfolding check_action_def
  by (auto intro!: ok_intros ok_getAuthenticatedClient ok_getListByName ok_teardown
      ok_checkItem split: option.splits prod.splits)

lemma ok_uncheck_action: "exits_within_codes (uncheck_action w listName itemName)"
  unfolding uncheck_action_def
  by (auto intro!: ok_intros ok_getAuthenticatedClient ok_getListByName ok_teardown
      ok_uncheckItem split: option.splits prod.splits)

lemma ok_remove_action: "exits_within_codes (remove_action w listName itemName)"
  unfolding remove_action_def
  by (auto intro!: ok_intros ok_getAuthenticatedClient ok_getListByName ok_teardown
      ok_removeItem split: option.splits prod.splits)

lemma ok_clear_action: "exits_within_codes (clear_action w listName)"
  unfolding clear_action_def
  by (auto intro!: ok_intros ok_getAuthenticatedClient ok_getListByName ok_teardown
      ok_clearChecked split: option.splits prod.splits)

lemma ok_dispatch:
  assumes "\<And>err. cmd \<noteq> ParseError err"
  shows "exits_within_codes (dispatch w cmd)"
  using assms
  by (cases cmd)
    (auto simp add: ok_auth_action ok_logout_action ok_whoami_action
      ok_lists_action ok_items_action ok_add_action ok_check_action ok_uncheck_action
      ok_remove_action ok_clear_action categories_action_def ok_return)

lemma exit_code_of_command:
  assumes "\<And>err. cmd \<noteq> ParseError err"
  shows "exit_code w disk cmd \<in> {0, 1, 2, 3} \<and>
         (exit_code w disk cmd = 0 \<longleftrightarrow> fst (run w disk cmd) = Return ())"
proof -
  obtain r t where m: "dispatch w cmd (initial_state disk) = (r, t)"
    by (cases "dispatch w cmd (initial_state disk)")
  from assms have ok: "exits_within_codes (dispatch w cmd)" by (rule ok_dispatch)
  show ?thesis
  proof (cases r)
    case (Exit c)
    with m ok have "1 \<le> c \<and> c \<le> 3" unfolding exits_within_codes_def by blast
    with m Exit show ?thesis by (auto simp: exit_code_def run_def exit_status_def)
  qed (use m in \<open>simp_all add: exit_code_def run_def exit_status_def\<close>)
qed

lemma exit_code_of_parse_error:
  "exit_code w disk (ParseError err) =
     (if err_code err \<in> usage_error_codes then exit_value InvalidUsage else err_exitCode err)"
  by (simp add: exit_code_def run_def exitOverride_def usage_error_codes_def exit_status_def
      io_simps)

lemma requireConfig_without_credentials:
  assumes "loadConfigFromEnv env = Null"
    and "files (fs s) (CONFIG_FILE home) = None" and "CONFIG_FILE home \<notin> dirs (fs s)"
  shows "requireConfig env home s =
           (Exit (exit_value AuthFailure), s\<lparr>trace := trace s @ [ExistsSync (CONFIG_FILE home)]\<rparr>)"
  using assms
  by (simp add: requireConfig_def loadConfig_def existsSync_def bind_io_def io_simps)

lemma exit_passes_through:
  "m s = (Exit c, s') \<Longrightarrow> try_catch (bind_io m f) h s = (Exit c, s')"
  by (simp add: try_catch_def bind_io_def)

lemma needs_client_exit:
  assumes "needs_client cmd" and "getAuthenticatedClient w s = (Exit c, s')"
  shows "dispatch w cmd s = (Exit c, s')"
  using assms
  by (cases cmd)
    (simp_all add: lists_action_def items_action_def add_action_def check_action_def
      uncheck_action_def remove_action_def clear_action_def exit_passes_through)

lemma getAuthenticatedClient_without_credentials:
  assumes "loadConfigFromEnv (w_env w) = Null"
    and "files (fs s) (CONFIG_FILE (w_home w)) = None"
    and "CONFIG_FILE (w_home w) \<notin> dirs (fs s)"
  shows "getAuthenticatedClient w s =
           (Exit (exit_value AuthFailure),
            s\<lparr>trace := trace s @ [ExistsSync (CONFIG_FILE (w_home w))]\<rparr>)"
  by (simp add: getAuthenticatedClient_def bind_io_def
      requireConfig_without_credentials [OF assms])

lemma getAuthenticatedClient_login_rejected:
  assumes "requireConfig (w_env w) (w_home w) s = (Return config, s')"
    and "\<not> lib_login (w_lib w) (get_prop config ''email'') (get_prop config ''password'')"
  shows "getAuthenticatedClient w s =
           (Exit (exit_value AuthFailure),
            s'\<lparr>trace := trace s' @
               [Login (get_prop config ''email'') (get_prop config ''password'')]\<rparr>)"
  using assms
  by (simp add: getAuthenticatedClient_def getClient_def try_catch_def bind_io_def io_simps)

lemma auth_action_without_tty:
  "\<not> stdin_isTTY w \<Longrightarrow> auth_action w s = (Exit (exit_value InvalidUsage), s)"
  by (simp add: auth_action_def bind_io_def io_simps)

lemma auth_action_login_rejected:
  assumes "stdin_isTTY w" and "typed_email w \<noteq> []" and "typed_password w = Some pw"
    and "pw \<noteq> []" and "\<not> lib_login (w_lib w) (Str (typed_email w)) (Str pw)"
  shows "fst (auth_action w s) = Exit (exit_value AuthFailure)"
  using assms
  by (simp add: auth_action_def prompt_def getClient_def try_catch_def bind_io_def io_simps)

text \<open>
  C4, at inputs on which the code departs from it. \<open>exitOverride\<close> is written to give
  code 2 to usage errors, and does so for a missing argument. An option given without
  its argument (\<^verbatim>\<open>add Grocery Milk --quantity\<close>) and an unknown command are usage errors
  too; Commander reports them with codes that \<open>exitOverride\<close> does not list and with its
  own exit code 1, and the process exits with 1.
\<close>

theorem usage_errors_that_exit_with_1:
  "exit_code w disk
     (ParseError \<lparr>err_code = ''commander.optionMissingArgument'', err_exitCode = 1\<rparr>) = 1 \<and>
   exit_code w disk
     (ParseError \<lparr>err_code = ''commander.unknownCommand'', err_exitCode = 1\<rparr>) = 1 \<and>
   exit_code w disk
     (ParseError \<lparr>err_code = ''commander.missingArgument'', err_exitCode = 1\<rparr>) = 2"
  by (simp add: exit_code_of_parse_error usage_error_codes_def)

text \<open>
  What does hold of the exit codes. Every command ends with code 0, 1, 2 or 3, and with 0
  exactly when its action returns. A Commander error with one of the four codes that
  \<open>exitOverride\<close> lists ends with 2, any other with the code Commander attached. A
  command that needs the client ends with 3 when neither the environment nor the
  configuration file holds credentials, and when the login is rejected; \<open>auth\<close> ends with
  2 without a terminal and with 3 when the login is rejected.
\<close>

lemma exit_code_summary:
  "((\<forall>err. cmd = ParseError err \<longrightarrow> err_exitCode err \<le> 1) \<longrightarrow>
       exit_code w disk cmd \<in> {0, 1, 2, 3})
   \<and> ((\<forall>err. cmd \<noteq> ParseError err) \<longrightarrow>
       (exit_code w disk cmd = 0 \<longleftrightarrow> fst (run w disk cmd) = Return ()))
   \<and> exit_code w disk (ParseError err) =
       (if err_code err \<in> usage_error_codes then exit_value InvalidUsage else err_exitCode err)
   \<and> (needs_client cmd \<and> loadConfigFromEnv (w_env w) = Null \<and>
       files disk (CONFIG_FILE (w_home w)) = None \<and> CONFIG_FILE (w_home w) \<notin> dirs disk \<longrightarrow>
         exit_code w disk cmd = exit_value AuthFailure)
   \<and> (needs_client cmd \<and>
       requireConfig (w_env w) (w_home w) (initial_state disk) = (Return config, s) \<and>
       \<not> lib_login (w_lib w) (get_prop config ''email'') (get_prop config ''password'') \<longrightarrow>
         exit_code w disk cmd = exit_value AuthFailure)
   \<and> (\<not> stdin_isTTY w \<longrightarrow> exit_code w disk Auth = exit_value InvalidUsage)
   \<and> (stdin_isTTY w \<and> typed_email w \<noteq> [] \<and> typed_password w = Some pw \<and> pw \<noteq> [] \<and>
       \<not> lib_login (w_lib w) (Str (typed_email w)) (Str pw) \<longrightarrow>
         exit_code w disk Auth = exit_value AuthFailure)"
proof (intro conjI impI)
  assume h: "\<forall>err. cmd = ParseError err \<longrightarrow> err_exitCode err \<le> 1"
  show "exit_code w disk cmd \<in> {0, 1, 2, 3}"
  proof (cases "\<exists>err. cmd = ParseError err")
    case True
    then obtain e where e: "cmd = ParseError e" by blast
    with h have "err_exitCode e \<le> 1" by blast
    then have "err_exitCode e = 0 \<or> err_exitCode e = 1" by arith
    with e show ?thesis by (auto simp: exit_code_of_parse_error)
  next
    case False
    then have "\<And>err. cmd \<noteq> ParseError err" by blast
    from exit_code_of_command [OF this, of w disk] show ?thesis by blast
  qed
next
  assume "\<forall>err. cmd \<noteq> ParseError err"
  then have n: "\<And>err. cmd \<noteq> ParseError err" by blast
  from exit_code_of_command [OF n, of w disk]
  show "exit_code w disk cmd = 0 \<longleftrightarrow> fst (run w disk cmd) = Return ()"
    by blast
next
  show "exit_code w disk (ParseError err) =
       (if err_code err \<in> usage_error_codes then exit_value InvalidUsage else err_exitCode err)"
    by (rule exit_code_of_parse_error)
next
  assume a: "needs_client cmd \<and> loadConfigFromEnv (w_env w) = Null \<and>
       files disk (CONFIG_FILE (w_home w)) = None \<and> CONFIG_FILE (w_home w) \<notin> dirs disk"
  then have "getAuthenticatedClient w (initial_state disk) =
           (Exit (exit_value AuthFailure),
            (initial_state disk)\<lparr>trace := trace (initial_state disk) @
               [ExistsSync (CONFIG_FILE (w_home w))]\<rparr>)"
    by (intro getAuthenticatedClient_without_credentials) (simp_all add: initial_state_def)
  with a have "fst (dispatch w cmd (initial_state disk)) = Exit (exit_value AuthFailure)"
    by (simp add: needs_client_exit)
  then show "exit_code w disk cmd = exit_value AuthFailure"
    by (simp add: exit_code_def run_def exit_status_def)
next
  assume a: "needs_client cmd \<and>
       requireConfig (w_env w) (w_home w) (initial_state disk) = (Return config, s) \<and>
       \<not> lib_login (w_lib w) (get_prop config ''email'') (get_prop config ''password'')"
  then have "getAuthenticatedClient w (initial_state disk) =
           (Exit (exit_value AuthFailure),
            s\<lparr>trace := trace s @
               [Login (get_prop config ''email'') (get_prop config ''password'')]\<rparr>)"
    by (intro getAuthenticatedClient_login_rejected) simp_all
  with a have "fst (dispatch w cmd (initial_state disk)) = Exit (exit_value AuthFailure)"
    by (simp add: needs_client_exit)
  then show "exit_code w disk cmd = exit_value AuthFailure"
    by (simp add: exit_code_def run_def exit_status_def)
next
  assume "\<not> stdin_isTTY w"
  then show "exit_code w disk Auth = exit_value InvalidUsage"
    by (simp add: exit_code_def run_def exit_status_def auth_action_without_tty)
next
  assume "stdin_isTTY w \<and> typed_email w \<noteq> [] \<and> typed_password w = Some pw \<and> pw \<noteq> [] \<and>
       \<not> lib_login (w_lib w) (Str (typed_email w)) (Str pw)"
  then have "fst (auth_action w (initial_state disk)) = Exit (exit_value AuthFailure)"
    using auth_action_login_rejected [of w pw "initial_state disk"] by blast
  then show "exit_code w disk Auth = exit_value AuthFailure"
    by (simp add: exit_code_def run_def exit_status_def)
qed

end
